theory Spec2Isabelle
  imports Complex_Main "HOL-Library.AList"
begin

section \<open>JavaScript values used by the handlers\<close>

text \<open>
  A JavaScript string is a sequence of UTF-16 code units; \<open>length\<close>, \<open>substring\<close>,
  \<open>split\<close> and \<open>startsWith\<close> count code units. A string is modelled as a \<open>string\<close>
  whose elements stand for the code units below 256.

  A JavaScript number is a double. The handlers only compare numbers with the constants
  0, 60, 80 and 100 and clamp them, which is exact on doubles, so a finite number is a
  real and the three special values are kept apart.
\<close>

datatype jsnum = Fin real | PInf | NInf | NaN

text \<open>\<open>a < b\<close> on JavaScript numbers: false as soon as one side is NaN.\<close>

fun js_lt :: "jsnum \<Rightarrow> jsnum \<Rightarrow> bool" where
  "js_lt NaN b = False"
| "js_lt a NaN = False"
| "js_lt (Fin x) (Fin y) = (x < y)"
| "js_lt (Fin x) PInf = True"
| "js_lt (Fin x) NInf = False"
| "js_lt PInf b = False"
| "js_lt NInf NInf = False"
| "js_lt NInf b = True"

text \<open>\<open>a >= b\<close> on JavaScript numbers: false as soon as one side is NaN.\<close>

definition js_ge :: "jsnum \<Rightarrow> jsnum \<Rightarrow> bool" where
  "js_ge a b \<longleftrightarrow> a \<noteq> NaN \<and> b \<noteq> NaN \<and> \<not> js_lt a b"

text \<open>\<open>Math.min\<close> and \<open>Math.max\<close> of two arguments: NaN if one argument is NaN.\<close>

definition Math_min :: "jsnum \<Rightarrow> jsnum \<Rightarrow> jsnum" where
  "Math_min a b = (if a = NaN \<or> b = NaN then NaN else if js_lt a b then a else b)"

definition Math_max :: "jsnum \<Rightarrow> jsnum \<Rightarrow> jsnum" where
  "Math_max a b = (if a = NaN \<or> b = NaN then NaN else if js_lt a b then b else a)"

text \<open>
  The values \<open>JSON.parse\<close> can return. An object holds its own properties, one entry
  per key.
\<close>

datatype json =
    JNull
  | JBool bool
  | JNum jsnum
  | JStr string
  | JArr "json list"
  | JObj "(string \<times> json) list"

text \<open>
  Reading a property of a value that is neither \<open>null\<close> nor \<open>undefined\<close>; \<open>None\<close> is
  \<open>undefined\<close>. Only the eight field names of an analysis are ever read, none of which
  is a property of a boolean, number, string or array.
\<close>

definition get_prop :: "json \<Rightarrow> string \<Rightarrow> json option" where
  "get_prop j k = (case j of JObj kvs \<Rightarrow> map_of kvs k | _ \<Rightarrow> None)"

text \<open>Truthiness, as \<open>||\<close> tests it.\<close>

fun truthy :: "json \<Rightarrow> bool" where
  "truthy JNull = False"
| "truthy (JBool b) = b"
| "truthy (JNum (Fin x)) = (x \<noteq> 0)"
| "truthy (JNum NaN) = False"
| "truthy (JNum n) = True"
| "truthy (JStr s) = (s \<noteq> [])"
| "truthy (JArr xs) = True"
| "truthy (JObj kvs) = True"

subsection \<open>String primitives\<close>

text \<open>The white space of \<open>\s\<close> and of \<open>trim\<close>, among the code units below 256.\<close>

definition isWhiteSpace :: "char \<Rightarrow> bool" where
  "isWhiteSpace c \<longleftrightarrow>
     c \<in> {CHR 0x09, CHR 0x0A, CHR 0x0B, CHR 0x0C, CHR 0x0D, CHR 0x20, CHR 0xA0}"

text \<open>\<open>String.prototype.toLowerCase\<close>, code unit by code unit (ASCII and Latin-1 capitals).\<close>

definition toLowerCase_char :: "char \<Rightarrow> char" where
  "toLowerCase_char c =
     (let n = (of_char c :: nat)
      in if (65 \<le> n \<and> n \<le> 90) \<or> (192 \<le> n \<and> n \<le> 222 \<and> n \<noteq> 215)
         then char_of (n + 32) else c)"

definition toLowerCase :: "string \<Rightarrow> string" where
  "toLowerCase s = map toLowerCase_char s"

text \<open>\<open>s.trim()\<close>.\<close>

definition trim :: "string \<Rightarrow> string" where
  "trim s = rev (dropWhile isWhiteSpace (rev (dropWhile isWhiteSpace s)))"

text \<open>\<open>s.startsWith(p)\<close>.\<close>

definition startsWith :: "string \<Rightarrow> string \<Rightarrow> bool" where
  "startsWith s p \<longleftrightarrow> take (length p) s = p"

text \<open>\<open>xs.join(sep)\<close> on an array of strings.\<close>

fun join :: "string \<Rightarrow> string list \<Rightarrow> string" where
  "join sep [] = []"
| "join sep [x] = x"
| "join sep (x # y # ys) = x @ sep @ join sep (y # ys)"

text \<open>A natural number inside a template literal: its decimal digits.\<close>

fun show_nat :: "nat \<Rightarrow> string" where
  "show_nat n =
     (if n < 10 then [char_of (48 + n)]
      else show_nat (n div 10) @ [char_of (48 + n mod 10)])"

declare show_nat.simps [simp del]

text \<open>
  \<open>s.split(/\s+/)\<close>: the pieces of \<open>s\<close> between the maximal runs of white space. A run
  at the start or at the end of \<open>s\<close> leaves an empty piece there, and the empty string
  gives one empty piece. The flag tells that the scan is inside a run; \<open>cur\<close> is the
  current piece, reversed.
\<close>

fun split_ws_from :: "bool \<Rightarrow> string \<Rightarrow> string \<Rightarrow> string list" where
  "split_ws_from in_ws cur [] = [rev cur]"
| "split_ws_from in_ws cur (c # cs) =
     (if isWhiteSpace c
      then (if in_ws then split_ws_from True [] cs else rev cur # split_ws_from True [] cs)
      else split_ws_from False (c # cur) cs)"

definition split_ws :: "string \<Rightarrow> string list" where
  "split_ws s = split_ws_from False [] s"

text \<open>
  \<open>s.replace(/PAT\n?/g, '')\<close> for a literal, non-empty \<open>PAT\<close>: every match, found from
  left to right, is removed together with one line feed that follows it.
\<close>

definition drop_opt_nl :: "string \<Rightarrow> string" where
  "drop_opt_nl s = (case s of [] \<Rightarrow> [] | c # r \<Rightarrow> if c = CHR 0x0A then r else c # r)"

function remove_pat :: "string \<Rightarrow> string \<Rightarrow> string" where
  "remove_pat pat [] = []"
| "remove_pat pat (c # cs) =
     (if pat \<noteq> [] \<and> startsWith (c # cs) pat
      then remove_pat pat (drop_opt_nl (drop (length pat) (c # cs)))
      else c # remove_pat pat cs)"
  by pat_completeness auto
termination
proof (relation "measure (\<lambda>(pat, s). length s)")
  fix pat :: string and c cs
  assume a: "pat \<noteq> [] \<and> startsWith (c # cs) pat"
  have le: "length (drop_opt_nl s) \<le> length s" for s
    by (simp add: drop_opt_nl_def split: list.splits)
  have "length (drop_opt_nl (drop (length pat) (c # cs))) \<le> length (drop (length pat) (c # cs))"
    by (rule le)
  also have "\<dots> < length (c # cs)"
    using a by (cases pat) simp_all
  finally show "((pat, drop_opt_nl (drop (length pat) (c # cs))), (pat, c # cs))
      \<in> measure (\<lambda>(pat, s). length s)"
    by simp
qed simp_all

section \<open>Data model\<close>

text \<open>
  Modelled from the spec: the union type \<open>WorkflowStatus\<close> is declared in
  \<open>types/index.ts\<close>, which is not among the sources; its eight members are the ones the
  specification lists and the handlers assign.
\<close>

datatype WorkflowStatus =
  Pending | Validating | Validated | Rejected | Analyzing | Analyzed | Completed | Failed

record ValidationResult =
  isValid :: bool
  errors :: "string list"
  warnings :: "string list"
  validatedAt :: string

text \<open>
  The analysis handler keeps whatever truthy value the language model gave as sentiment and
  whatever arrays it gave as topics, strengths and weaknesses, so these fields hold JSON
  values.
\<close>

record AIAnalysisResult =
  sentiment :: json
  topics :: "json list"
  readabilityScore :: jsnum
  wordCount :: jsnum
  qualityScore :: jsnum
  summary :: string
  strengths :: "json list"
  weaknesses :: "json list"
  analyzedAt :: string

record RecommendationVotes =
  upvotes :: nat
  downvotes :: nat
  userVotes :: "(string \<times> string) list"

record Recommendation =
  rec_id :: string
  rec_type :: string
  rec_title :: string
  description :: string
  priority :: string
  actionableSteps :: "string list"
  votes :: "RecommendationVotes option"

record ImprovedContent =
  originalBody :: string
  improvedBody :: string
  generatedAt :: string
  ic_status :: string
  appliedAt :: "string option"

record ContentState =
  contentId :: string
  title :: string
  body :: string
  author :: string
  language :: string
  userId :: "string option"
  createdAt :: string
  updatedAt :: string
  workflowStatus :: WorkflowStatus
  validationResult :: "ValidationResult option"
  aiAnalysis :: "AIAnalysisResult option"
  recommendations :: "Recommendation list option"
  improvedContent :: "ImprovedContent option"

section \<open>The state store and the effects of a handler\<close>

record DailyMetrics =
  staleContentCount :: nat
  totalContentProcessed :: nat
  deletedContentCount :: nat
  activeContentCount :: nat

text \<open>
  The key-value store, one field per collection. The content collection is an
  association list, because \<open>getGroup\<close> enumerates it; the others are maps.
  Store operations are taken to succeed.
\<close>

record store =
  content :: "(string \<times> ContentState) list"
  validation :: "string \<rightharpoonup> ValidationResult"
  workflow :: "string \<rightharpoonup> WorkflowStatus \<times> string"
  ai_analysis :: "string \<rightharpoonup> AIAnalysisResult"
  recommendations_coll :: "string \<rightharpoonup> Recommendation list"
  votes_coll :: "string \<rightharpoonup> (string \<times> string) list"
  daily_metrics :: "DailyMetrics option"
  daily_processing_last_run :: "string list option"

definition get_content :: "store \<Rightarrow> string \<Rightarrow> ContentState option" where
  "get_content st k = map_of (content st) k"

definition set_content :: "string \<Rightarrow> ContentState \<Rightarrow> store \<Rightarrow> store" where
  "set_content k v st = st\<lparr>content := AList.update k v (content st)\<rparr>"

definition set_workflow :: "string \<Rightarrow> WorkflowStatus \<Rightarrow> store \<Rightarrow> store" where
  "set_workflow k s st = st\<lparr>workflow := (workflow st)(k \<mapsto> (s, k))\<rparr>"

text \<open>
  What a handler does to the outside, in program order: writes and deletes on the
  store, pushes to the \<open>contentUpdates\<close> stream (group, message type) and emitted
  events (topic). A push or an emit is recorded when it is attempted, whether or not it
  then fails. Log lines are left out.
\<close>

datatype effect =
    SetContent string ContentState
  | SetState string string
  | DeleteState string string
  | StreamSend string string
  | Emit string

text \<open>
  What a handler invocation cannot decide: the readings of the clock, numbered by the
  \<open>new Date()\<close> call sites of the handler in source order, and whether the stream push
  and the event emission throw.
\<close>

record env =
  clock :: "nat \<Rightarrow> string"
  stream_fails :: bool
  emit_fails :: bool

section \<open>Validation stage (validate-content.step.ts)\<close>

definition MIN_BODY_LENGTH :: nat where
  "MIN_BODY_LENGTH = 100"

definition SUPPORTED_LANGUAGES :: "string list" where
  "SUPPORTED_LANGUAGES = [''en'', ''es'', ''fr'', ''de'', ''it'', ''pt'']"

text \<open>The language check of line 47.\<close>

definition language_supported :: "string \<Rightarrow> bool" where
  "language_supported lang \<longleftrightarrow> toLowerCase lang \<in> set SUPPORTED_LANGUAGES"

text \<open>Lines 36 to 49: the two rules that produce errors, in order.\<close>

definition validation_errors :: "ContentState \<Rightarrow> string list" where
  "validation_errors cs =
     (if length (body cs) < MIN_BODY_LENGTH
      then [''Content body must be at least '' @ show_nat MIN_BODY_LENGTH
            @ '' characters. Current: '' @ show_nat (length (body cs))]
      else [])
     @ (if \<not> language_supported (language cs)
        then [''Language '' @ [CHR 0x27] @ language cs @ [CHR 0x27]
              @ '' is not supported. Supported: '' @ join '', '' SUPPORTED_LANGUAGES]
        else [])"

text \<open>Lines 51 to 59: the two rules that produce warnings.\<close>

definition validation_warnings :: "ContentState \<Rightarrow> string list" where
  "validation_warnings cs =
     (if length (title cs) < 10
      then [''Title is quite short. Consider a more descriptive title.'']
      else [])
     @ (if length (body cs) < 500
        then [''Content body is relatively short. Consider adding more detail.'']
        else [])"

definition make_validationResult :: "env \<Rightarrow> ContentState \<Rightarrow> ValidationResult" where
  "make_validationResult e cs =
     \<lparr>isValid = (validation_errors cs = []),
      errors = validation_errors cs,
      warnings = validation_warnings cs,
      validatedAt = clock e 0\<rparr>"

text \<open>
  The handler. A failing stream push throws into the outer \<open>catch\<close>, which only logs,
  so the emission of \<open>content.validated\<close> is then not reached.
\<close>

definition ValidateContent :: "env \<Rightarrow> string \<Rightarrow> store \<Rightarrow> store \<times> effect list" where
  "ValidateContent e cid st =
     (case get_content st cid of
        None \<Rightarrow> (st, [])
      | Some cs \<Rightarrow>
          let vr = make_validationResult e cs;
              cs1 = cs\<lparr>validationResult := Some vr, updatedAt := clock e 1\<rparr>;
              st1 = set_content cid cs1 st;
              st2 = st1\<lparr>validation := (validation st1)(cid \<mapsto> vr)\<rparr>;
              tr2 = [SetContent cid cs1, SetState ''validation'' cid]
          in if \<not> isValid vr
             then let cs2 = cs1\<lparr>workflowStatus := Rejected\<rparr>
                  in (set_workflow cid Rejected (set_content cid cs2 st2),
                      tr2 @ [SetContent cid cs2, SetState ''workflow'' cid,
                             Emit ''content.rejected''])
             else let cs2 = cs1\<lparr>workflowStatus := Validated\<rparr>
                  in (set_workflow cid Validated (set_content cid cs2 st2),
                      tr2 @ [SetContent cid cs2, SetState ''workflow'' cid,
                             StreamSend cid ''validation_completed'']
                          @ (if stream_fails e then [] else [Emit ''content.validated''])))"

section \<open>Analysis stage (analyze-with-ai.step.ts)\<close>

text \<open>
  The outcome of the model call of lines 80 to 108: it throws (an API error, or the
  45 second timer wins the race), or it yields the text \<open>aiResponse\<close>.
\<close>

datatype llm_outcome = ApiFailure | Reply string

text \<open>Lines 114 to 119: trimming and removal of the markdown fences.\<close>

definition clean_response :: "string \<Rightarrow> string" where
  "clean_response aiResponse =
     (let cleanedResponse = trim aiResponse
      in if startsWith cleanedResponse ''```json''
         then remove_pat ''```'' (remove_pat ''```json'' cleanedResponse)
         else if startsWith cleanedResponse ''```''
         then remove_pat ''```'' cleanedResponse
         else cleanedResponse)"

text \<open>Lines 130 to 139: the object built when parsing throws.\<close>

definition fallback_analysis :: "string \<Rightarrow> json" where
  "fallback_analysis b =
     JObj [(''sentiment'', JStr ''neutral''),
           (''topics'', JArr []),
           (''readabilityScore'', JNum (Fin 50)),
           (''wordCount'', JNum (Fin (real (length (split_ws b))))),
           (''qualityScore'', JNum (Fin 50)),
           (''summary'', JStr (take 200 b @ ''...'')),
           (''strengths'', JArr []),
           (''weaknesses'', JArr [])]"

text \<open>
  Lines 111 to 140: \<open>analysisData\<close>. \<open>JSON.parse\<close> is a parameter: \<open>None\<close> when it
  throws.
\<close>

definition analysisData_of :: "(string \<Rightarrow> json option) \<Rightarrow> string \<Rightarrow> string \<Rightarrow> json" where
  "analysisData_of parse b aiResponse =
     (case parse (clean_response aiResponse) of
        Some j \<Rightarrow> j
      | None \<Rightarrow> fallback_analysis b)"

text \<open>The clamp of lines 147 and 153.\<close>

definition clamp_score :: "jsnum \<Rightarrow> jsnum" where
  "clamp_score x = Math_max (Fin 0) (Math_min (Fin 100) x)"

definition array_or_empty :: "json option \<Rightarrow> json list" where
  "array_or_empty v = (case v of Some (JArr xs) \<Rightarrow> xs | _ \<Rightarrow> [])"

text \<open>
  Lines 143 to 161, for an \<open>analysisData\<close> that is not \<open>null\<close> (reading a property of
  \<open>null\<close> throws; the handler below treats that case).
\<close>

definition make_aiAnalysis :: "json \<Rightarrow> string \<Rightarrow> string \<Rightarrow> AIAnalysisResult" where
  "make_aiAnalysis analysisData b now =
     \<lparr>sentiment =
        (case get_prop analysisData ''sentiment'' of
           Some v \<Rightarrow> if truthy v then v else JStr ''neutral''
         | None \<Rightarrow> JStr ''neutral''),
      topics = array_or_empty (get_prop analysisData ''topics''),
      readabilityScore =
        (case get_prop analysisData ''readabilityScore'' of
           Some (JNum x) \<Rightarrow> clamp_score x
         | _ \<Rightarrow> Fin 50),
      wordCount =
        (case get_prop analysisData ''wordCount'' of
           Some (JNum x) \<Rightarrow> x
         | _ \<Rightarrow> Fin (real (length (split_ws b)))),
      qualityScore =
        (case get_prop analysisData ''qualityScore'' of
           Some (JNum x) \<Rightarrow> clamp_score x
         | _ \<Rightarrow> Fin 50),
      summary =
        (case get_prop analysisData ''summary'' of
           Some (JStr s) \<Rightarrow> if length s > 0 then s else take 200 b @ ''...''
         | _ \<Rightarrow> take 200 b @ ''...''),
      strengths = array_or_empty (get_prop analysisData ''strengths''),
      weaknesses = array_or_empty (get_prop analysisData ''weaknesses''),
      analyzedAt = now\<rparr>"

text \<open>
  The \<open>try\<close> block of a handler either runs to its end (or returns early), or throws
  with the store and the effects reached so far.
\<close>

datatype 'a outcome = Returned 'a | Thrown 'a

text \<open>
  Lines 26 to 212. The stream push and the emission sit in their own \<open>try\<close>/\<open>catch\<close>,
  so both are attempted whatever the other does and neither can throw further.
\<close>

definition AnalyzeWithAI_try ::
  "env \<Rightarrow> bool \<Rightarrow> (string \<Rightarrow> json option) \<Rightarrow> llm_outcome \<Rightarrow> string \<Rightarrow> store
     \<Rightarrow> (store \<times> effect list) outcome" where
  "AnalyzeWithAI_try e api_key parse llm cid st =
     (if \<not> api_key then Thrown (st, [])
      else case get_content st cid of
        None \<Rightarrow> Returned (st, [])
      | Some cs \<Rightarrow>
          let cs1 = cs\<lparr>workflowStatus := Analyzing, updatedAt := clock e 0\<rparr>;
              st1 = set_workflow cid Analyzing (set_content cid cs1 st);
              tr1 = [SetContent cid cs1, SetState ''workflow'' cid]
          in case llm of
               ApiFailure \<Rightarrow> Thrown (st1, tr1)
             | Reply aiResponse \<Rightarrow>
                 let analysisData = analysisData_of parse (body cs1) aiResponse
                 in if analysisData = JNull then Thrown (st1, tr1)
                    else
                      let aiAnalysis = make_aiAnalysis analysisData (body cs1) (clock e 1);
                          cs2 = cs1\<lparr>aiAnalysis := Some aiAnalysis,
                                    workflowStatus := Analyzed,
                                    updatedAt := clock e 2\<rparr>;
                          st2 = set_content cid cs2 st1;
                          st3 = st2\<lparr>ai_analysis := (ai_analysis st2)(cid \<mapsto> aiAnalysis)\<rparr>;
                          st4 = set_workflow cid Analyzed st3
                      in Returned (st4,
                           tr1 @ [SetContent cid cs2, SetState ''ai_analysis'' cid,
                                  SetState ''workflow'' cid,
                                  StreamSend cid ''analysis_completed'',
                                  Emit ''content.analyzed'']))"

text \<open>Lines 214 to 241: the outer \<open>catch\<close>.\<close>

definition AnalyzeWithAI_catch :: "env \<Rightarrow> string \<Rightarrow> store \<Rightarrow> store \<times> effect list" where
  "AnalyzeWithAI_catch e cid st =
     (case get_content st cid of
        None \<Rightarrow> (st, [])
      | Some cs \<Rightarrow>
          if aiAnalysis cs = None
          then let cs1 = cs\<lparr>workflowStatus := Failed, updatedAt := clock e 4\<rparr>
               in (set_workflow cid Failed (set_content cid cs1 st),
                   [SetContent cid cs1, SetState ''workflow'' cid])
          else let cs1 = cs\<lparr>workflowStatus := Analyzed, updatedAt := clock e 5\<rparr>
               in (set_workflow cid Analyzed (set_content cid cs1 st),
                   [SetContent cid cs1, SetState ''workflow'' cid]))"

definition AnalyzeWithAI ::
  "env \<Rightarrow> bool \<Rightarrow> (string \<Rightarrow> json option) \<Rightarrow> llm_outcome \<Rightarrow> string \<Rightarrow> store
     \<Rightarrow> store \<times> effect list" where
  "AnalyzeWithAI e api_key parse llm cid st =
     (case AnalyzeWithAI_try e api_key parse llm cid st of
        Returned r \<Rightarrow> r
      | Thrown (st1, tr1) \<Rightarrow>
          (case AnalyzeWithAI_catch e cid st1 of (st2, tr2) \<Rightarrow> (st2, tr1 @ tr2)))"

section \<open>Recommendation stage (generate-recommendations.step.js)\<close>

text \<open>Lines 18 to 59: the three branches, of which exactly one pushes.\<close>

definition publish_recommendation :: "string \<Rightarrow> AIAnalysisResult \<Rightarrow> Recommendation" where
  "publish_recommendation cid a =
     (if js_ge (qualityScore a) (Fin 80) \<and> sentiment a = JStr ''positive''
      then \<lparr>rec_id = ''rec_'' @ cid @ ''_publish_1'',
            rec_type = ''publish'',
            rec_title = ''Ready to Publish'',
            description = ''Content meets high quality standards and is ready for publication.'',
            priority = ''high'',
            actionableSteps =
              [''Review final content for typos'',
               ''Add relevant tags/categories'',
               ''Schedule publication'',
               ''Share on social media channels''],
            votes = None\<rparr>
      else if js_ge (qualityScore a) (Fin 60)
      then \<lparr>rec_id = ''rec_'' @ cid @ ''_publish_2'',
            rec_type = ''publish'',
            rec_title = ''Publish with Minor Edits'',
            description =
              ''Content is good but could benefit from minor improvements before publishing.'',
            priority = ''medium'',
            actionableSteps =
              [''Address identified weaknesses'',
               ''Enhance strengths'',
               ''Review and publish''],
            votes = None\<rparr>
      else \<lparr>rec_id = ''rec_'' @ cid @ ''_review_1'',
            rec_type = ''review'',
            rec_title = ''Needs Review Before Publishing'',
            description =
              ''Content requires significant improvements before it'' @ [CHR 0x27]
              @ ''s ready for publication.'',
            priority = ''high'',
            actionableSteps =
              [''Address all identified weaknesses'',
               ''Improve quality score above 60'',
               ''Get peer review'',
               ''Revise and resubmit''],
            votes = None\<rparr>)"

text \<open>
  Lines 60 to 69. \<open>toStr\<close> is JavaScript's conversion of a value to a string (the
  identity on strings); \<open>join\<close> writes \<open>null\<close> as the empty string.
\<close>

definition improve_recommendation ::
  "(json \<Rightarrow> string) \<Rightarrow> string \<Rightarrow> AIAnalysisResult \<Rightarrow> Recommendation" where
  "improve_recommendation toStr cid a =
     \<lparr>rec_id = ''rec_'' @ cid @ ''_improve_1'',
      rec_type = ''improve'',
      rec_title = ''Address Content Weaknesses'',
      description =
        ''Focus on improving: ''
        @ join '', '' (map (\<lambda>w. if w = JNull then [] else toStr w) (take 3 (weaknesses a))),
      priority = (if js_lt (qualityScore a) (Fin 60) then ''high'' else ''medium''),
      actionableSteps = map (\<lambda>w. ''Work on: '' @ toStr w) (take 5 (weaknesses a)),
      votes = None\<rparr>"

text \<open>Lines 70 to 84.\<close>

definition readability_recommendation :: "string \<Rightarrow> Recommendation" where
  "readability_recommendation cid =
     \<lparr>rec_id = ''rec_'' @ cid @ ''_optimize_1'',
      rec_type = ''optimize'',
      rec_title = ''Improve Readability'',
      description = ''Content readability can be improved for better audience engagement.'',
      priority = ''medium'',
      actionableSteps =
        [''Use shorter sentences'',
         ''Break up long paragraphs'',
         ''Add subheadings for structure'',
         ''Simplify complex vocabulary where possible''],
      votes = None\<rparr>"

text \<open>Lines 85 to 98.\<close>

definition topics_recommendation :: "string \<Rightarrow> Recommendation" where
  "topics_recommendation cid =
     \<lparr>rec_id = ''rec_'' @ cid @ ''_optimize_2'',
      rec_type = ''optimize'',
      rec_title = ''Expand Topic Coverage'',
      description = ''Consider adding more related topics to improve SEO and depth.'',
      priority = ''low'',
      actionableSteps =
        [''Research related subtopics'',
         ''Add supporting examples'',
         ''Include relevant keywords naturally''],
      votes = None\<rparr>"

text \<open>Lines 17 to 98: the array \<open>recommendations\<close> after the pushes, in their order.\<close>

definition generate_recommendations ::
  "(json \<Rightarrow> string) \<Rightarrow> string \<Rightarrow> AIAnalysisResult \<Rightarrow> Recommendation list" where
  "generate_recommendations toStr cid a =
     [publish_recommendation cid a]
     @ (if length (weaknesses a) > 0 then [improve_recommendation toStr cid a] else [])
     @ (if js_lt (readabilityScore a) (Fin 60) then [readability_recommendation cid] else [])
     @ (if length (topics a) > 0 \<and> length (topics a) < 3 then [topics_recommendation cid]
        else [])"

text \<open>
  Lines 9 to 137. The event carries \<open>aiAnalysis\<close>; when the payload lacks it, reading
  its fields throws, after the content has been found.
\<close>

definition GenerateRecommendations_try ::
  "env \<Rightarrow> (json \<Rightarrow> string) \<Rightarrow> string \<Rightarrow> AIAnalysisResult option \<Rightarrow> store
     \<Rightarrow> (store \<times> effect list) outcome" where
  "GenerateRecommendations_try e toStr cid input_analysis st =
     (case get_content st cid of
        None \<Rightarrow> Returned (st, [])
      | Some cs \<Rightarrow>
          (case input_analysis of
             None \<Rightarrow> Thrown (st, [])
           | Some a \<Rightarrow>
               let recs = generate_recommendations toStr cid a;
                   cs1 = cs\<lparr>recommendations := Some recs,
                             workflowStatus := Completed,
                             updatedAt := clock e 0\<rparr>;
                   st1 = set_content cid cs1 st;
                   st2 = st1\<lparr>recommendations_coll := (recommendations_coll st1)(cid \<mapsto> recs)\<rparr>;
                   st3 = set_workflow cid Completed st2
               in Returned (st3,
                    [SetContent cid cs1, SetState ''recommendations'' cid,
                     SetState ''workflow'' cid,
                     StreamSend cid ''recommendations_completed'',
                     Emit ''content.completed''])))"

text \<open>Lines 138 to 161: the outer \<open>catch\<close>.\<close>

definition GenerateRecommendations_catch ::
  "env \<Rightarrow> string \<Rightarrow> store \<Rightarrow> store \<times> effect list" where
  "GenerateRecommendations_catch e cid st =
     (case get_content st cid of
        None \<Rightarrow> (st, [])
      | Some cs \<Rightarrow>
          if (case recommendations cs of None \<Rightarrow> False | Some rs \<Rightarrow> length rs > 0)
          then let cs1 = cs\<lparr>workflowStatus := Completed, updatedAt := clock e 2\<rparr>
               in (set_workflow cid Completed (set_content cid cs1 st),
                   [SetContent cid cs1, SetState ''workflow'' cid])
          else if aiAnalysis cs \<noteq> None
          then let cs1 = cs\<lparr>workflowStatus := Analyzed, updatedAt := clock e 3\<rparr>
               in (set_workflow cid Analyzed (set_content cid cs1 st),
                   [SetContent cid cs1, SetState ''workflow'' cid])
          else (st, []))"

definition GenerateRecommendations ::
  "env \<Rightarrow> (json \<Rightarrow> string) \<Rightarrow> string \<Rightarrow> AIAnalysisResult option \<Rightarrow> store
     \<Rightarrow> store \<times> effect list" where
  "GenerateRecommendations e toStr cid input_analysis st =
     (case GenerateRecommendations_try e toStr cid input_analysis st of
        Returned r \<Rightarrow> r
      | Thrown (st1, tr1) \<Rightarrow>
          (case GenerateRecommendations_catch e cid st1 of (st2, tr2) \<Rightarrow> (st2, tr1 @ tr2)))"

section \<open>Retention job (handler \<open>DailyProcessing\<close>)\<close>

definition STALE_AGE_DAYS :: int where
  "STALE_AGE_DAYS = 90"

text \<open>Line 53; \<open>now\<close> is \<open>Date.now()\<close>, in milliseconds.\<close>

definition staleThreshold :: "int \<Rightarrow> int" where
  "staleThreshold now = now - STALE_AGE_DAYS * 24 * 60 * 60 * 1000"

text \<open>
  Line 79. \<open>getTime\<close> stands for \<open>new Date(s).getTime()\<close>: the milliseconds of a
  parsable date, and \<open>None\<close> for NaN, which makes the comparison false.
\<close>

definition is_stale :: "int \<Rightarrow> (string \<Rightarrow> int option) \<Rightarrow> ContentState \<Rightarrow> bool" where
  "is_stale now getTime c =
     (case getTime (createdAt c) of
        None \<Rightarrow> False
      | Some t \<Rightarrow> t < staleThreshold now)"

text \<open>Line 82.\<close>

definition is_final_state :: "WorkflowStatus \<Rightarrow> bool" where
  "is_final_state s \<longleftrightarrow> s \<in> set [Completed, Failed, Rejected]"

text \<open>The loop variables that outlive an iteration, with the store and the effects.\<close>

record daily_acc =
  d_store :: store
  d_staleContentCount :: nat
  d_deletedContentIds :: "string list"
  d_trace :: "effect list"

text \<open>
  Lines 68 to 96: one iteration. The processing times of lines 73 to 76 feed only the
  average of the metrics, which is floating-point arithmetic and is left out.
\<close>

definition process_item ::
  "int \<Rightarrow> (string \<Rightarrow> int option) \<Rightarrow> daily_acc \<Rightarrow> ContentState \<Rightarrow> daily_acc" where
  "process_item now getTime acc c =
     (if is_stale now getTime c
      then (if is_final_state (workflowStatus c)
            then \<lparr>d_store =
                    (d_store acc)
                      \<lparr>content := AList.delete (contentId c) (content (d_store acc)),
                       workflow := (workflow (d_store acc))(contentId c := None)\<rparr>,
                  d_staleContentCount = d_staleContentCount acc + 1,
                  d_deletedContentIds = d_deletedContentIds acc @ [contentId c],
                  d_trace = d_trace acc
                    @ [DeleteState ''content'' (contentId c),
                       DeleteState ''workflow'' (contentId c)]\<rparr>
            else acc)
      else acc)"

text \<open>
  Lines 47 to 135. \<open>getGroup\<close> returns the items of the content collection as they
  are when the job starts; the loop runs over that array.
\<close>

definition DailyProcessing ::
  "int \<Rightarrow> (string \<Rightarrow> int option) \<Rightarrow> store \<Rightarrow> daily_acc" where
  "DailyProcessing now getTime st =
     (let allContent = map snd (content st);
          acc = foldl (process_item now getTime)
                  \<lparr>d_store = st, d_staleContentCount = 0,
                   d_deletedContentIds = [], d_trace = []\<rparr>
                  allContent;
          metrics =
            \<lparr>staleContentCount = d_staleContentCount acc,
             totalContentProcessed = length allContent,
             deletedContentCount = length (d_deletedContentIds acc),
             activeContentCount = length allContent - length (d_deletedContentIds acc)\<rparr>
      in acc\<lparr>d_store :=
               (d_store acc)
                 \<lparr>daily_metrics := Some metrics,
                  daily_processing_last_run := Some (take 100 (d_deletedContentIds acc))\<rparr>,
             d_trace := d_trace acc
               @ [SetState ''system'' ''daily_metrics'',
                  SetState ''system'' ''daily_processing_last_run'']\<rparr>)"

section \<open>Voting (handler \<open>VoteRecommendation\<close>)\<close>

record vote_request =
  v_contentId :: string
  v_recommendationId :: string
  v_userId :: string
  v_vote :: string

text \<open>
  \<open>votes[k] = v\<close> on a plain object, kept as the list of its own properties. Assigning
  a string to the key \<open>__proto__\<close> of an object that has no own property of that name
  runs the inherited setter, which ignores a string.
\<close>

definition set_property :: "(string \<times> string) list \<Rightarrow> string \<Rightarrow> string \<Rightarrow> (string \<times> string) list" where
  "set_property obj k v =
     (if k = ''__proto__'' \<and> k \<notin> fst ` set obj then obj else AList.update k v obj)"

text \<open>Lines 54 and 55: \<open>Object.values(votes).filter(v => v === x).length\<close>.\<close>

definition count_votes :: "string \<Rightarrow> (string \<times> string) list \<Rightarrow> nat" where
  "count_votes x obj = length (filter (\<lambda>v. v = x) (map snd obj))"

text \<open>
  The object found by \<open>find\<close> is changed in place: the first element that satisfies
  \<open>p\<close> is replaced.
\<close>

fun update_first :: "('a \<Rightarrow> bool) \<Rightarrow> ('a \<Rightarrow> 'a) \<Rightarrow> 'a list \<Rightarrow> 'a list" where
  "update_first p f [] = []"
| "update_first p f (x # xs) = (if p x then f x # xs else x # update_first p f xs)"

definition voteKey :: "string \<Rightarrow> string \<Rightarrow> string" where
  "voteKey cid rid = ''votes_'' @ cid @ ''_'' @ rid"

text \<open>
  Lines 9 to 103, returning the HTTP status with the store and the effects. An absent
  path parameter or body field is the empty string. A failing push or emission throws
  into the \<open>catch\<close>, which answers 500 after both writes have been made.
\<close>

definition VoteRecommendation :: "env \<Rightarrow> vote_request \<Rightarrow> store \<Rightarrow> nat \<times> store \<times> effect list" where
  "VoteRecommendation e req st =
     (let cid = v_contentId req; rid = v_recommendationId req
      in if cid = [] \<or> rid = [] then (400, st, [])
         else if v_userId req = [] \<or> v_vote req = [] \<or> v_vote req \<notin> set [''up'', ''down'']
         then (400, st, [])
         else case get_content st cid of
           None \<Rightarrow> (404, st, [])
         | Some cs \<Rightarrow>
             (case find (\<lambda>r. rec_id r = rid)
                     (case recommendations cs of None \<Rightarrow> [] | Some rs \<Rightarrow> rs) of
                None \<Rightarrow> (404, st, [])
              | Some recommendation \<Rightarrow>
                  let existingVotes = votes_coll st (voteKey cid rid);
                      vs = set_property (case existingVotes of None \<Rightarrow> [] | Some v \<Rightarrow> v)
                             (v_userId req) (v_vote req);
                      st1 = st\<lparr>votes_coll := (votes_coll st)(voteKey cid rid \<mapsto> vs)\<rparr>;
                      new_votes = \<lparr>upvotes = count_votes ''up'' vs,
                                   downvotes = count_votes ''down'' vs,
                                   userVotes = vs\<rparr>;
                      cs1 = cs\<lparr>recommendations :=
                               map_option
                                 (update_first (\<lambda>r. rec_id r = rid)
                                    (\<lambda>r. r\<lparr>votes := Some new_votes\<rparr>))
                                 (recommendations cs)\<rparr>;
                      st2 = set_content cid cs1 st1
                  in (if stream_fails e \<or> emit_fails e then 500 else 200,
                      st2,
                      [SetState ''votes'' (voteKey cid rid), SetContent cid cs1,
                       StreamSend cid ''vote_updated'']
                      @ (if stream_fails e then [] else [Emit ''vote.cast'']))))"

section \<open>Applying an improvement (handler \<open>ApplyImprovedContent\<close>, body swap)\<close>

text \<open>
  Lines 9 to 62 of the variant that only swaps the body, returning the HTTP status with
  the store and the effects. The handler is given neither \<open>emit\<close> nor \<open>streams\<close>.
\<close>

definition ApplyImprovedContent :: "env \<Rightarrow> string \<Rightarrow> store \<Rightarrow> nat \<times> store \<times> effect list" where
  "ApplyImprovedContent e cid st =
     (if cid = [] then (400, st, [])
      else case get_content st cid of
        None \<Rightarrow> (404, st, [])
      | Some cs \<Rightarrow>
          (case improvedContent cs of
             None \<Rightarrow> (400, st, [])
           | Some ic \<Rightarrow>
               if ic_status ic \<noteq> ''completed'' then (400, st, [])
               else if improvedBody ic = [] then (400, st, [])
               else
                 let cs1 = cs\<lparr>body := improvedBody ic,
                              improvedContent := Some (ic\<lparr>appliedAt := Some (clock e 0)\<rparr>),
                              updatedAt := clock e 1\<rparr>
                 in (200, set_content cid cs1 st, [SetContent cid cs1])))"

section \<open>Notions used to state the properties\<close>

text \<open>The upper-case form of an ASCII letter, and the casing variants of a code.\<close>

definition toUpperCase_ascii :: "char \<Rightarrow> char" where
  "toUpperCase_ascii c =
     (let n = (of_char c :: nat) in if 97 \<le> n \<and> n \<le> 122 then char_of (n - 32) else c)"


definition is_ascii_lower :: "char \<Rightarrow> bool" where
  "is_ascii_lower c \<longleftrightarrow> 97 \<le> (of_char c :: nat) \<and> (of_char c :: nat) \<le> 122"

text \<open>The topics of the events a handler emitted, in order.\<close>

fun emitted_topics :: "effect list \<Rightarrow> string list" where
  "emitted_topics [] = []"
| "emitted_topics (Emit t # es) = t # emitted_topics es"
| "emitted_topics (e # es) = emitted_topics es"

text \<open>Line 16 of analyze-with-ai.step.ts: the topics that trigger the analysis stage.\<close>

definition AnalyzeWithAI_subscribes :: "string list" where
  "AnalyzeWithAI_subscribes = [''content.validated'']"

subsection \<open>Sample data\<close>

definition example_env :: env where
  "example_env =
     \<lparr>clock = (\<lambda>n. ''2025-01-01T00:00:00.000Z''), stream_fails = False,
      emit_fails = False\<rparr>"

definition example_item :: "string \<Rightarrow> string \<Rightarrow> string \<Rightarrow> WorkflowStatus \<Rightarrow> ContentState" where
  "example_item cid b lang s =
     \<lparr>contentId = cid, title = ''A title'', body = b, author = ''Ann'', language = lang,
      userId = None, createdAt = ''2025-01-01'', updatedAt = ''2025-01-01'',
      workflowStatus = s, validationResult = None, aiAnalysis = None,
      recommendations = None, improvedContent = None\<rparr>"

definition example_store :: "ContentState list \<Rightarrow> store" where
  "example_store cs =
     \<lparr>content = map (\<lambda>c. (contentId c, c)) cs, validation = Map.empty, workflow = Map.empty,
      ai_analysis = Map.empty, recommendations_coll = Map.empty, votes_coll = Map.empty,
      daily_metrics = None, daily_processing_last_run = None\<rparr>"

text \<open>A stand-in for JavaScript's conversion to a string: the identity on strings.\<close>

definition example_toStr :: "json \<Rightarrow> string" where
  "example_toStr j = (case j of JStr s \<Rightarrow> s | _ \<Rightarrow> ''?'')"

definition example_analysis :: "jsnum \<Rightarrow> json \<Rightarrow> jsnum \<Rightarrow> json list \<Rightarrow> AIAnalysisResult" where
  "example_analysis q s r ws =
     \<lparr>sentiment = s, topics = [JStr ''cooking''], readabilityScore = r, wordCount = Fin 120,
      qualityScore = q, summary = ''A summary'', strengths = [], weaknesses = ws,
      analyzedAt = ''2025-01-02''\<rparr>"

subsection \<open>Kinds of recommendation\<close>

definition is_publish_or_review :: "Recommendation \<Rightarrow> bool" where
  "is_publish_or_review r \<longleftrightarrow> rec_type r = ''publish'' \<or> rec_type r = ''review''"

definition is_minor_edits :: "Recommendation \<Rightarrow> bool" where
  "is_minor_edits r \<longleftrightarrow>
     rec_type r = ''publish'' \<and> rec_title r = ''Publish with Minor Edits''
     \<and> priority r = ''medium''"

subsection \<open>Analysis results\<close>

text \<open>
  \<open>JSON.parse\<close> returns finite numbers and, on overflow, the infinities; it never
  returns NaN.
\<close>

fun no_NaN :: "json \<Rightarrow> bool" where
  "no_NaN (JNum n) = (n \<noteq> NaN)"
| "no_NaN (JArr xs) = list_all no_NaN xs"
| "no_NaN (JObj kvs) = list_all no_NaN (map snd kvs)"
| "no_NaN j = True"

text \<open>A score within the bounds 0 and 100.\<close>

definition score_in_range :: "jsnum \<Rightarrow> bool" where
  "score_in_range x = (case x of Fin r \<Rightarrow> 0 \<le> r \<and> r \<le> 100 | _ \<Rightarrow> False)"

text \<open>The fallback analysis as the specification describes it.\<close>

definition fallback_result :: "string \<Rightarrow> string \<Rightarrow> AIAnalysisResult" where
  "fallback_result b now =
     \<lparr>sentiment = JStr ''neutral'', topics = [], readabilityScore = Fin 50,
      wordCount = Fin (real (length (split_ws b))), qualityScore = Fin 50,
      summary = take 200 b @ ''...'', strengths = [], weaknesses = [], analyzedAt = now\<rparr>"

text \<open>A body of 22 words and 111 characters that ends with a line feed.\<close>

definition example_body :: string where
  "example_body =
     ''The quick brown fox jumps over the lazy dog. The quick brown fox jumps over the lazy dog. The quick brown fox.''
     @ [CHR 0x0A]"

text \<open>A stand-in for \<open>JSON.parse\<close> that knows one JSON text.\<close>

definition example_parse :: "string \<Rightarrow> json option" where
  \<open>example_parse s =
     (if s = ''{"wordCount":250,"qualityScore":120}''
      then Some (JObj [(''wordCount'', JNum (Fin 250)), (''qualityScore'', JNum (Fin 120))])
      else None)\<close>

subsection \<open>Voting\<close>

text \<open>
  The item and the recommendation a vote request reaches: lines 14 to 48 of the vote
  handler answer 400 or 404 in every other case and change nothing.
\<close>

definition vote_target :: "vote_request \<Rightarrow> store \<Rightarrow> (ContentState \<times> Recommendation) option" where
  "vote_target req st =
     (if v_contentId req = [] \<or> v_recommendationId req = [] then None
      else if v_userId req = [] \<or> v_vote req = [] \<or> v_vote req \<notin> set [''up'', ''down'']
      then None
      else case get_content st (v_contentId req) of
             None \<Rightarrow> None
           | Some cs \<Rightarrow>
               map_option (Pair cs)
                 (find (\<lambda>r. rec_id r = v_recommendationId req)
                    (case recommendations cs of None \<Rightarrow> [] | Some rs \<Rightarrow> rs)))"

text \<open>The vote map of the request's recommendation before the vote (lines 49 to 51).\<close>

definition votes_before :: "vote_request \<Rightarrow> store \<Rightarrow> (string \<times> string) list" where
  "votes_before req st =
     (case votes_coll st (voteKey (v_contentId req) (v_recommendationId req)) of
        None \<Rightarrow> [] | Some v \<Rightarrow> v)"

text \<open>The vote map the handler writes (lines 51 to 53).\<close>

definition votes_after :: "vote_request \<Rightarrow> store \<Rightarrow> (string \<times> string) list" where
  "votes_after req st =
     set_property
       (case votes_coll st (voteKey (v_contentId req) (v_recommendationId req)) of
          None \<Rightarrow> [] | Some v \<Rightarrow> v)
       (v_userId req) (v_vote req)"

text \<open>The aggregate written onto the recommendation (lines 54 to 65).\<close>

definition new_votes :: "vote_request \<Rightarrow> store \<Rightarrow> RecommendationVotes" where
  "new_votes req st =
     \<lparr>upvotes = count_votes ''up'' (votes_after req st),
      downvotes = count_votes ''down'' (votes_after req st),
      userVotes = votes_after req st\<rparr>"

text \<open>The item and the store the handler writes (lines 53 and 66).\<close>

definition item_after_vote :: "vote_request \<Rightarrow> store \<Rightarrow> ContentState \<Rightarrow> ContentState" where
  "item_after_vote req st cs =
     cs\<lparr>recommendations :=
          map_option
            (update_first (\<lambda>r. rec_id r = v_recommendationId req)
               (\<lambda>r. r\<lparr>votes := Some \<lparr>upvotes = count_votes ''up'' (votes_after req st),
                                       downvotes = count_votes ''down'' (votes_after req st),
                                       userVotes = votes_after req st\<rparr>\<rparr>))
            (recommendations cs)\<rparr>"

definition store_after_vote :: "vote_request \<Rightarrow> store \<Rightarrow> ContentState \<Rightarrow> store" where
  "store_after_vote req st cs =
     set_content (v_contentId req) (item_after_vote req st cs)
       (st\<lparr>votes_coll := (votes_coll st)
             (voteKey (v_contentId req) (v_recommendationId req) \<mapsto> votes_after req st)\<rparr>)"

subsection \<open>More sample data\<close>

definition example_recommendation :: "string \<Rightarrow> Recommendation" where
  "example_recommendation rid =
     \<lparr>rec_id = rid, rec_type = ''publish'', rec_title = ''Ready to Publish'',
      description = ''Good'', priority = ''high'', actionableSteps = [], votes = None\<rparr>"

definition example_vote :: vote_request where
  "example_vote =
     \<lparr>v_contentId = ''c1'', v_recommendationId = ''r1'', v_userId = ''u1'', v_vote = ''up''\<rparr>"

definition example_vote_store :: store where
  "example_vote_store =
     (example_store
        [(example_item ''c1'' ''text'' ''en'' Completed)
           \<lparr>recommendations := Some [example_recommendation ''r1'']\<rparr>])
     \<lparr>votes_coll := [''votes_c1_r1'' \<mapsto> [(''u0'', ''up''), (''u1'', ''down'')]]\<rparr>"

definition example_improved :: ImprovedContent where
  "example_improved =
     \<lparr>originalBody = ''text'', improvedBody = ''better text'', generatedAt = ''2025-01-03'',
      ic_status = ''completed'', appliedAt = None\<rparr>"

definition example_apply_store :: store where
  "example_apply_store =
     example_store
       [(example_item ''c1'' ''text'' ''en'' Completed)\<lparr>improvedContent := Some example_improved\<rparr>]"

subsection \<open>Retention\<close>

text \<open>
  An item created more than 90 days before \<open>now\<close>; an item whose creation date does
  not parse has no age.
\<close>

definition older_than_90_days :: "int \<Rightarrow> (string \<Rightarrow> int option) \<Rightarrow> ContentState \<Rightarrow> bool" where
  "older_than_90_days now getTime c =
     (case getTime (createdAt c) of
        None \<Rightarrow> False
      | Some t \<Rightarrow> now - t > 90 * 24 * 60 * 60 * 1000)"

text \<open>An item the retention job is to delete: old enough and in a terminal state.\<close>

definition retention_due :: "int \<Rightarrow> (string \<Rightarrow> int option) \<Rightarrow> ContentState \<Rightarrow> bool" where
  "retention_due now getTime c \<longleftrightarrow>
     older_than_90_days now getTime c
     \<and> workflowStatus c \<in> {Completed, Failed, Rejected}"

text \<open>
  The content collection as the handlers build it: one entry per key, and every item
  stored under its own \<open>contentId\<close> (the create handler writes it so, and every later
  write goes to the same key).
\<close>

definition store_consistent :: "store \<Rightarrow> bool" where
  "store_consistent st \<longleftrightarrow>
     distinct (map fst (content st)) \<and> (\<forall>p \<in> set (content st). contentId (snd p) = fst p)"

text \<open>Sample data for the retention job.\<close>

definition example_getTime :: "string \<Rightarrow> int option" where
  "example_getTime s =
     (if s = ''1970-01-01T00:00:00.000Z'' then Some 0
      else if s = ''1970-04-03T14:13:20.000Z'' then Some 8000000000
      else None)"

definition example_aged_item :: "string \<Rightarrow> WorkflowStatus \<Rightarrow> ContentState" where
  "example_aged_item cid s =
     (example_item cid ''text'' ''en'' s)\<lparr>createdAt := ''1970-01-01T00:00:00.000Z''\<rparr>"

definition example_retention_store :: store where
  "example_retention_store =
     example_store [example_aged_item ''c1'' Completed, example_aged_item ''c2'' Analyzing]"

subsection \<open>Order of writes and notifications\<close>

text \<open>
  The best-effort notifications are the stream pushes and the event emissions; every
  other effect is a write to the store.
\<close>

fun is_notification :: "effect \<Rightarrow> bool" where
  "is_notification (StreamSend g t) = True"
| "is_notification (Emit t) = True"
| "is_notification e = False"

definition is_write :: "effect \<Rightarrow> bool" where
  "is_write e \<longleftrightarrow> \<not> is_notification e"

text \<open>No write comes after a notification.\<close>

definition writes_then_notifications :: "effect list \<Rightarrow> bool" where
  "writes_then_notifications tr \<longleftrightarrow> list_all is_notification (dropWhile is_write tr)"

text \<open>The workflow statuses written to the content record of an item, in order.\<close>

fun status_writes :: "string \<Rightarrow> effect list \<Rightarrow> WorkflowStatus list" where
  "status_writes cid [] = []"
| "status_writes cid (SetContent k v # es) =
     (if k = cid then workflowStatus v # status_writes cid es else status_writes cid es)"
| "status_writes cid (e # es) = status_writes cid es"

text \<open>
  The status a notification announces: a stream message carries it in its \<open>status\<close>
  field (\<open>validated\<close>, \<open>analyzed\<close>, \<open>completed\<close>), and an event announces the status
  its topic names.
\<close>

fun announced_status :: "effect \<Rightarrow> WorkflowStatus option" where
  "announced_status (StreamSend g t) =
     (if t = ''validation_completed'' then Some Validated
      else if t = ''analysis_completed'' then Some Analyzed
      else if t = ''recommendations_completed'' then Some Completed
      else None)"
| "announced_status (Emit t) =
     (if t = ''content.validated'' then Some Validated
      else if t = ''content.rejected'' then Some Rejected
      else if t = ''content.analyzed'' then Some Analyzed
      else if t = ''content.completed'' then Some Completed
      else None)"
| "announced_status e = None"

text \<open>
  The outcome of a handler respects the order: all writes come before all
  notifications, and for every notification attempted, a status was written to the
  content record of the item, the last status written is the one the notification
  announces, and it is the one the store holds.
\<close>

definition status_then_notify :: "string \<Rightarrow> store \<times> effect list \<Rightarrow> bool" where
  "status_then_notify cid r \<longleftrightarrow>
     writes_then_notifications (snd r)
     \<and> (\<forall>n \<in> set (filter is_notification (snd r)).
          status_writes cid (snd r) \<noteq> []
        \<and> announced_status n = Some (last (status_writes cid (snd r)))
        \<and> map_option workflowStatus (get_content (fst r) cid)
            = Some (last (status_writes cid (snd r))))"

text \<open>The notifications a handler attempted, in order.\<close>

definition notifications :: "effect list \<Rightarrow> effect list" where
  "notifications tr = filter is_notification tr"

text \<open>The same invocation with the two notification failures set as given.\<close>

definition with_failures :: "bool \<Rightarrow> bool \<Rightarrow> env \<Rightarrow> env" where
  "with_failures sf ef e = e\<lparr>stream_fails := sf, emit_fails := ef\<rparr>"

subsection \<open>Words\<close>

text \<open>
  The words of a string are its maximal runs of characters that are not white space;
  the flag tells that the previous character, if any, was white space.
\<close>

fun count_words_from :: "bool \<Rightarrow> string \<Rightarrow> nat" where
  "count_words_from prev_ws [] = 0"
| "count_words_from prev_ws (c # cs) =
     (if isWhiteSpace c then count_words_from True cs
      else (if prev_ws then 1 else 0) + count_words_from False cs)"

definition count_words :: "string \<Rightarrow> nat" where
  "count_words s = count_words_from True s"

text \<open>A text that ends in white space; the flag stands for what precedes the string.\<close>

definition ends_in_ws :: "bool \<Rightarrow> string \<Rightarrow> bool" where
  "ends_in_ws p s = (if s = [] then p else isWhiteSpace (last s))"

section \<open>Auxiliary facts\<close>

subsection \<open>The store\<close>

lemma get_content_set_content [simp]:
  "get_content (set_content k v st) k' = (if k' = k then Some v else get_content st k')"
  by (simp add: get_content_def set_content_def update_conv')

lemma get_content_set_workflow [simp]:
  "get_content (set_workflow k s st) k' = get_content st k'"
  by (simp add: get_content_def set_workflow_def)

lemma validation_set_content [simp]: "validation (set_content k v st) = validation st"
  by (simp add: set_content_def)

lemma validation_set_workflow [simp]: "validation (set_workflow k s st) = validation st"
  by (simp add: set_workflow_def)

lemma workflow_set_workflow [simp]: "workflow (set_workflow k s st) = (workflow st)(k \<mapsto> (s, k))"
  by (simp add: set_workflow_def)

lemma get_content_other_fields [simp]:
  "get_content (st\<lparr>validation := a\<rparr>) = get_content st"
  "get_content (st\<lparr>workflow := b\<rparr>) = get_content st"
  "get_content (st\<lparr>ai_analysis := c\<rparr>) = get_content st"
  "get_content (st\<lparr>recommendations_coll := d\<rparr>) = get_content st"
  "get_content (st\<lparr>votes_coll := f\<rparr>) = get_content st"
  "get_content (st\<lparr>daily_metrics := g\<rparr>) = get_content st"
  "get_content (st\<lparr>daily_processing_last_run := h\<rparr>) = get_content st"
  by (simp_all add: get_content_def fun_eq_iff)

subsection \<open>Lower case\<close>

lemma toLowerCase_char_preimage:
  assumes "is_ascii_lower d"
  shows "toLowerCase_char c = d \<longleftrightarrow> c = d \<or> c = toUpperCase_ascii d"
proof -
  have c256: "(of_char c :: nat) < 256" by simp
  have d: "97 \<le> (of_char d :: nat)" "(of_char d :: nat) \<le> 122"
    using assms by (simp_all add: is_ascii_lower_def)
  show ?thesis
  proof (cases "65 \<le> (of_char c :: nat) \<and> (of_char c :: nat) \<le> 90")
    case True
    then have low: "toLowerCase_char c = char_of ((of_char c :: nat) + 32)"
      by (simp add: toLowerCase_char_def)
    have ne: "c \<noteq> d" using True d by auto
    have "char_of ((of_char c :: nat) + 32) = d \<longleftrightarrow> (of_char c :: nat) + 32 = of_char d"
      using True by (simp add: char_of_eq_iff take_bit_eq_mod)
    also have "\<dots> \<longleftrightarrow> c = char_of ((of_char d :: nat) - 32)"
    proof
      assume "(of_char c :: nat) + 32 = of_char d"
      then have "(of_char d :: nat) - 32 = of_char c" by simp
      then show "c = char_of ((of_char d :: nat) - 32)" by simp
    next
      assume "c = char_of ((of_char d :: nat) - 32)"
      then have "(of_char c :: nat) = (of_char d - 32) mod 256" by simp
      then show "(of_char c :: nat) + 32 = of_char d" using d by simp
    qed
    finally show ?thesis using low ne d by (simp add: toUpperCase_ascii_def)
  next
    case False
    have up: "toUpperCase_ascii d = char_of ((of_char d :: nat) - 32)"
      using d by (simp add: toUpperCase_ascii_def)
    have "(of_char (toUpperCase_ascii d) :: nat) = of_char d - 32"
      using d unfolding up by simp
    then have ne: "c \<noteq> toUpperCase_ascii d" using False d by auto
    show ?thesis
    proof (cases "192 \<le> (of_char c :: nat) \<and> (of_char c :: nat) \<le> 222 \<and> (of_char c :: nat) \<noteq> 215")
      case True
      then have "toLowerCase_char c = char_of ((of_char c :: nat) + 32)"
        by (simp add: toLowerCase_char_def)
      then have "(of_char (toLowerCase_char c) :: nat) = of_char c + 32"
        using True by simp
      then have "toLowerCase_char c \<noteq> d" using True d by auto
      moreover have "c \<noteq> d" using True d by auto
      ultimately show ?thesis using ne by simp
    next
      case F2: False
      then have "toLowerCase_char c = c" using False by (auto simp add: toLowerCase_char_def)
      then show ?thesis using ne by auto
    qed
  qed
qed

lemma toLowerCase_toUpperCase_ascii:
  "is_ascii_lower d \<Longrightarrow> toLowerCase_char (toUpperCase_ascii d) = d"
  using toLowerCase_char_preimage [of d "toUpperCase_ascii d"] by simp

lemma toLowerCase_ascii_lower:
  "is_ascii_lower d \<Longrightarrow> toLowerCase_char d = d"
  using toLowerCase_char_preimage [of d d] by simp



subsection \<open>Validation\<close>

lemma short_body_invalid:
  "length (body cs) < 100 \<Longrightarrow> \<not> isValid (make_validationResult e cs)"
  by (simp add: make_validationResult_def validation_errors_def MIN_BODY_LENGTH_def)


lemma ValidateContent_invalid:
  assumes "get_content st cid = Some cs" and "\<not> isValid (make_validationResult e cs)"
  shows "ValidateContent e cid st =
    (let vr = make_validationResult e cs;
         cs1 = cs\<lparr>validationResult := Some vr, updatedAt := clock e 1\<rparr>;
         cs2 = cs1\<lparr>workflowStatus := Rejected\<rparr>;
         st1 = set_content cid cs1 st;
         st2 = st1\<lparr>validation := (validation st1)(cid \<mapsto> vr)\<rparr>
     in (set_workflow cid Rejected (set_content cid cs2 st2),
         [SetContent cid cs1, SetState ''validation'' cid, SetContent cid cs2,
          SetState ''workflow'' cid, Emit ''content.rejected'']))"
  using assms by (simp add: ValidateContent_def Let_def)

section \<open>Properties of the validation stage\<close>

text \<open>
  C7. For a stored content item whose body has fewer than 100 characters, the validation
  stage stores a validation result with \<open>isValid = false\<close> (in the validation collection
  and on the item), sets the workflow status to \<open>rejected\<close> (on the item and in the
  workflow collection), emits \<open>content.rejected\<close> and nothing else, and so emits no
  topic the analysis stage subscribes to.
\<close>

theorem C7_short_body_rejected:
  assumes "get_content st cid = Some cs" and "length (body cs) < 100"
  shows "(case ValidateContent e cid st of (st', tr) \<Rightarrow>
            validation st' cid = Some (make_validationResult e cs)
          \<and> \<not> isValid (make_validationResult e cs)
          \<and> map_option validationResult (get_content st' cid)
              = Some (Some (make_validationResult e cs))
          \<and> map_option workflowStatus (get_content st' cid) = Some Rejected
          \<and> workflow st' cid = Some (Rejected, cid)
          \<and> emitted_topics tr = [''content.rejected'']
          \<and> set (emitted_topics tr) \<inter> set AnalyzeWithAI_subscribes = {})"
proof -
  have inv: "\<not> isValid (make_validationResult e cs)"
    using assms(2) by (rule short_body_invalid)
  show ?thesis
    unfolding ValidateContent_invalid [OF assms(1) inv]
    using inv by (simp add: Let_def AnalyzeWithAI_subscribes_def)
qed

theorem C7_short_body_rejected_witness:
  "get_content (example_store [example_item ''c1'' ''too short'' ''en'' Pending]) ''c1''
     = Some (example_item ''c1'' ''too short'' ''en'' Pending)
   \<and> length (body (example_item ''c1'' ''too short'' ''en'' Pending)) < 100
   \<and> (case ValidateContent example_env ''c1''
             (example_store [example_item ''c1'' ''too short'' ''en'' Pending]) of
         (st', tr) \<Rightarrow>
           map_option workflowStatus (get_content st' ''c1'') = Some Rejected
         \<and> emitted_topics tr = [''content.rejected''])"
proof -
  have h1: "get_content (example_store [example_item ''c1'' ''too short'' ''en'' Pending]) ''c1''
     = Some (example_item ''c1'' ''too short'' ''en'' Pending)"
    by (simp add: get_content_def example_store_def example_item_def)
  have h2: "length (body (example_item ''c1'' ''too short'' ''en'' Pending)) < 100"
    by (simp add: example_item_def)
  show ?thesis
    using C7_short_body_rejected [OF h1 h2, of example_env] h1 h2
    by (simp add: case_prod_unfold)
qed



section \<open>Properties of the recommendation stage\<close>

lemma publish_recommendation_type:
  "is_publish_or_review (publish_recommendation cid a)"
  by (simp add: publish_recommendation_def is_publish_or_review_def)

lemma other_recommendation_types:
  "\<not> is_publish_or_review (improve_recommendation toStr cid a)"
  "\<not> is_publish_or_review (readability_recommendation cid)"
  "\<not> is_publish_or_review (topics_recommendation cid)"
  by (simp_all add: improve_recommendation_def readability_recommendation_def
      topics_recommendation_def is_publish_or_review_def)

lemma other_recommendation_type_names:
  "rec_type (improve_recommendation toStr cid a) = ''improve''"
  "rec_type (readability_recommendation cid) = ''optimize''"
  "rec_type (topics_recommendation cid) = ''optimize''"
  by (simp_all add: improve_recommendation_def readability_recommendation_def
      topics_recommendation_def)

lemma other_recommendations_not_minor_edits:
  "\<not> is_minor_edits (improve_recommendation toStr cid a)"
  "\<not> is_minor_edits (readability_recommendation cid)"
  "\<not> is_minor_edits (topics_recommendation cid)"
  by (simp_all add: improve_recommendation_def readability_recommendation_def
      topics_recommendation_def is_minor_edits_def)

lemma publish_recommendation_minor_edits:
  "is_minor_edits (publish_recommendation cid a) \<longleftrightarrow>
     js_ge (qualityScore a) (Fin 60)
     \<and> \<not> (js_ge (qualityScore a) (Fin 80) \<and> sentiment a = JStr ''positive'')"
  by (simp add: publish_recommendation_def is_minor_edits_def)

lemma GenerateRecommendations_stored:
  assumes "get_content st cid = Some cs"
  shows "map_option recommendations
           (get_content (fst (GenerateRecommendations e toStr cid (Some a) st)) cid)
         = Some (Some (generate_recommendations toStr cid a))"
  using assms
  by (simp add: GenerateRecommendations_def GenerateRecommendations_try_def Let_def)

text \<open>
  C3. Whatever the analysis, the list the recommendation stage produces holds exactly
  one recommendation of type \<open>publish\<close> or \<open>review\<close>, and it is the first element; every
  later element is of type \<open>improve\<close> or \<open>optimize\<close>, so those are added after it and
  do not replace it. For a stored item the handler stores this list on the item.
\<close>

theorem C3_exactly_one_publish_or_review:
  "length (filter is_publish_or_review (generate_recommendations toStr cid a)) = 1
   \<and> generate_recommendations toStr cid a \<noteq> []
   \<and> hd (generate_recommendations toStr cid a) = publish_recommendation cid a
   \<and> is_publish_or_review (publish_recommendation cid a)
   \<and> (\<forall>r \<in> set (tl (generate_recommendations toStr cid a)).
         rec_type r = ''improve'' \<or> rec_type r = ''optimize'')
   \<and> (get_content st cid = Some cs \<longrightarrow>
        map_option recommendations
          (get_content (fst (GenerateRecommendations e toStr cid (Some a) st)) cid)
        = Some (Some (generate_recommendations toStr cid a)))"
proof (intro conjI impI)
  show "length (filter is_publish_or_review (generate_recommendations toStr cid a)) = 1"
    by (simp add: generate_recommendations_def publish_recommendation_type
        other_recommendation_types)
  show "generate_recommendations toStr cid a \<noteq> []"
    by (simp add: generate_recommendations_def)
  show "hd (generate_recommendations toStr cid a) = publish_recommendation cid a"
    by (simp add: generate_recommendations_def)
  show "is_publish_or_review (publish_recommendation cid a)"
    by (rule publish_recommendation_type)
  show "\<forall>r \<in> set (tl (generate_recommendations toStr cid a)).
         rec_type r = ''improve'' \<or> rec_type r = ''optimize''"
    by (auto simp add: generate_recommendations_def other_recommendation_type_names)
next
  assume "get_content st cid = Some cs"
  then show "map_option recommendations
          (get_content (fst (GenerateRecommendations e toStr cid (Some a) st)) cid)
        = Some (Some (generate_recommendations toStr cid a))"
    by (rule GenerateRecommendations_stored)
qed

theorem C3_exactly_one_publish_or_review_witness:
  "get_content (example_store [example_item ''c1'' ''text'' ''en'' Analyzed]) ''c1''
     = Some (example_item ''c1'' ''text'' ''en'' Analyzed)
   \<and> length (filter is_publish_or_review
        (generate_recommendations example_toStr ''c1''
           (example_analysis (Fin 40) (JStr ''negative'') (Fin 30) [JStr ''typos'']))) = 1
   \<and> map rec_type
        (generate_recommendations example_toStr ''c1''
           (example_analysis (Fin 40) (JStr ''negative'') (Fin 30) [JStr ''typos'']))
       = [''review'', ''improve'', ''optimize'', ''optimize'']
   \<and> map_option recommendations
        (get_content
           (fst (GenerateRecommendations example_env example_toStr ''c1''
                   (Some (example_analysis (Fin 40) (JStr ''negative'') (Fin 30) [JStr ''typos'']))
                   (example_store [example_item ''c1'' ''text'' ''en'' Analyzed])))
           ''c1'')
       = Some (Some (generate_recommendations example_toStr ''c1''
                       (example_analysis (Fin 40) (JStr ''negative'') (Fin 30) [JStr ''typos''])))"
proof -
  have h: "get_content (example_store [example_item ''c1'' ''text'' ''en'' Analyzed]) ''c1''
     = Some (example_item ''c1'' ''text'' ''en'' Analyzed)"
    by (simp add: get_content_def example_store_def example_item_def)
  have t: "map rec_type
        (generate_recommendations example_toStr ''c1''
           (example_analysis (Fin 40) (JStr ''negative'') (Fin 30) [JStr ''typos'']))
       = [''review'', ''improve'', ''optimize'', ''optimize'']"
    by (simp add: generate_recommendations_def publish_recommendation_def
        other_recommendation_type_names example_analysis_def js_ge_def)
  show ?thesis
    using C3_exactly_one_publish_or_review
      [of example_toStr "''c1''"
          "example_analysis (Fin 40) (JStr ''negative'') (Fin 30) [JStr ''typos'']"
          "example_store [example_item ''c1'' ''text'' ''en'' Analyzed]"
          "example_item ''c1'' ''text'' ''en'' Analyzed" example_env]
      h t
    by simp
qed

text \<open>
  C4, as stated, fails: an analysis with quality score 90 and a sentiment other than
  \<open>positive\<close> gets the recommendation \<open>Publish with Minor Edits\<close> although 90 is outside
  the interval from 60 to 80.
\<close>

theorem C4_minor_edits_counterexample:
  "is_minor_edits
     (hd (generate_recommendations example_toStr ''c1''
            (example_analysis (Fin 90) (JStr ''neutral'') (Fin 70) [])))
   \<and> qualityScore (example_analysis (Fin 90) (JStr ''neutral'') (Fin 70) []) = Fin 90
   \<and> \<not> ((60::real) \<le> 90 \<and> (90::real) < 80)"
  by (simp add: generate_recommendations_def publish_recommendation_def is_minor_edits_def
      example_analysis_def js_ge_def)

text \<open>
  C4, amended. The recommendation stage produces a recommendation of type \<open>publish\<close>
  with title \<open>Publish with Minor Edits\<close> and priority \<open>medium\<close> exactly when the quality
  score is at least 60 and it is not the case that the score is at least 80 with sentiment
  \<open>positive\<close>; in particular it does so for every score in the interval from 60
  (included) to 80 (excluded).
\<close>

theorem C4_minor_edits_amended:
  "((\<exists>r \<in> set (generate_recommendations toStr cid a). is_minor_edits r) \<longleftrightarrow>
      js_ge (qualityScore a) (Fin 60)
      \<and> \<not> (js_ge (qualityScore a) (Fin 80) \<and> sentiment a = JStr ''positive''))
   \<and> (js_ge (qualityScore a) (Fin 60) \<and> js_lt (qualityScore a) (Fin 80) \<longrightarrow>
        is_minor_edits (hd (generate_recommendations toStr cid a)))"
proof (intro conjI impI)
  show "(\<exists>r \<in> set (generate_recommendations toStr cid a). is_minor_edits r) \<longleftrightarrow>
      js_ge (qualityScore a) (Fin 60)
      \<and> \<not> (js_ge (qualityScore a) (Fin 80) \<and> sentiment a = JStr ''positive'')"
    by (auto simp add: generate_recommendations_def publish_recommendation_minor_edits
        other_recommendations_not_minor_edits)
next
  assume "js_ge (qualityScore a) (Fin 60) \<and> js_lt (qualityScore a) (Fin 80)"
  then have "is_minor_edits (publish_recommendation cid a)"
    by (simp add: publish_recommendation_minor_edits js_ge_def)
  then show "is_minor_edits (hd (generate_recommendations toStr cid a))"
    by (simp add: generate_recommendations_def)
qed

theorem C4_minor_edits_amended_witness:
  "js_ge (Fin 70) (Fin 60) \<and> js_lt (Fin 70) (Fin 80)
   \<and> is_minor_edits
       (hd (generate_recommendations example_toStr ''c1''
              (example_analysis (Fin 70) (JStr ''positive'') (Fin 70) [])))
   \<and> (\<exists>r \<in> set (generate_recommendations example_toStr ''c1''
                    (example_analysis (Fin 70) (JStr ''positive'') (Fin 70) [])).
         is_minor_edits r)"
  using C4_minor_edits_amended
    [of example_toStr "''c1''" "example_analysis (Fin 70) (JStr ''positive'') (Fin 70) []"]
  by (simp add: example_analysis_def js_ge_def)

section \<open>Properties of the analysis stage\<close>

lemma clamp_score_in_range: "x \<noteq> NaN \<Longrightarrow> score_in_range (clamp_score x)"
  by (cases x) (auto simp: clamp_score_def Math_min_def Math_max_def score_in_range_def)

lemma no_NaN_prop:
  "no_NaN j \<Longrightarrow> get_prop j k = Some (JNum x) \<Longrightarrow> x \<noteq> NaN"
  by (cases j) (auto simp: get_prop_def list_all_iff dest!: map_of_SomeD)

lemma make_aiAnalysis_fallback:
  "make_aiAnalysis (fallback_analysis b) b now = fallback_result b now"
  by (simp add: make_aiAnalysis_def fallback_analysis_def fallback_result_def get_prop_def
      array_or_empty_def clamp_score_def Math_min_def Math_max_def)

lemma make_aiAnalysis_scores:
  assumes "no_NaN j"
  shows "score_in_range (readabilityScore (make_aiAnalysis j b now))"
    and "score_in_range (qualityScore (make_aiAnalysis j b now))"
proof -
  have fifty: "score_in_range (Fin 50)" by (simp add: score_in_range_def)
  show "score_in_range (readabilityScore (make_aiAnalysis j b now))"
    using no_NaN_prop [OF assms] fifty
    by (auto simp: make_aiAnalysis_def clamp_score_in_range split: option.splits json.splits)
  show "score_in_range (qualityScore (make_aiAnalysis j b now))"
    using no_NaN_prop [OF assms] fifty
    by (auto simp: make_aiAnalysis_def clamp_score_in_range split: option.splits json.splits)
qed

lemma AnalyzeWithAI_success:
  assumes "get_content st cid = Some cs"
    and "analysisData_of parse (body cs) aiResponse \<noteq> JNull"
  shows "ai_analysis (fst (AnalyzeWithAI e True parse (Reply aiResponse) cid st)) cid
           = Some (make_aiAnalysis (analysisData_of parse (body cs) aiResponse) (body cs) (clock e 1))"
    and "map_option aiAnalysis
           (get_content (fst (AnalyzeWithAI e True parse (Reply aiResponse) cid st)) cid)
           = Some (Some (make_aiAnalysis (analysisData_of parse (body cs) aiResponse) (body cs)
                           (clock e 1)))"
    and "map_option workflowStatus
           (get_content (fst (AnalyzeWithAI e True parse (Reply aiResponse) cid st)) cid)
           = Some Analyzed"
  using assms
  by (simp_all add: AnalyzeWithAI_def AnalyzeWithAI_try_def Let_def set_workflow_def)

lemma analysisData_of_None:
  "parse (clean_response aiResponse) = None \<Longrightarrow>
     analysisData_of parse b aiResponse = fallback_analysis b"
  by (simp add: analysisData_of_def)

lemma analysisData_of_Some:
  "parse (clean_response aiResponse) = Some j \<Longrightarrow> analysisData_of parse b aiResponse = j"
  by (simp add: analysisData_of_def)

lemma fallback_analysis_not_null: "fallback_analysis b \<noteq> JNull"
  by (simp add: fallback_analysis_def)

lemma ends_in_ws_Cons: "ends_in_ws p (c # cs) = ends_in_ws (isWhiteSpace c) cs"
  by (simp add: ends_in_ws_def)

lemma length_split_ws_from:
  "length (split_ws_from p cur s)
     = count_words_from p s + (if p then 0 else 1) + (if ends_in_ws p s then 1 else 0)"
proof (induction s arbitrary: p cur)
  case Nil
  then show ?case by (simp add: ends_in_ws_def)
next
  case (Cons c cs)
  show ?case
  proof (cases "isWhiteSpace c")
    case True
    then show ?thesis
      using Cons.IH [of True "[]"] by (simp add: ends_in_ws_Cons)
  next
    case False
    then show ?thesis
      using Cons.IH [of False "c # cur"] by (simp add: ends_in_ws_Cons)
  qed
qed

lemma count_words_from_start:
  "s \<noteq> [] \<Longrightarrow> \<not> isWhiteSpace (hd s) \<Longrightarrow>
     count_words_from True s = Suc (count_words_from False s)"
  by (cases s) simp_all

lemma count_words_from_ws_start:
  "s \<noteq> [] \<Longrightarrow> isWhiteSpace (hd s) \<Longrightarrow> count_words_from False s = count_words_from True s"
  by (cases s) simp_all

lemma length_split_ws:
  "length (split_ws s)
     = count_words s
       + (if s = [] \<or> isWhiteSpace (hd s) then 1 else 0)
       + (if s \<noteq> [] \<and> isWhiteSpace (last s) then 1 else 0)"
proof (cases "s = []")
  case True
  then show ?thesis by (simp add: split_ws_def count_words_def)
next
  case False
  then show ?thesis
    unfolding split_ws_def count_words_def length_split_ws_from
    using count_words_from_start [of s] count_words_from_ws_start [of s]
    by (auto simp add: ends_in_ws_def)
qed

text \<open>
  C5, as stated, fails for the word count: a body of 22 words that ends with a line
  feed is stored with word count 23 when parsing throws, since \<open>split\<close> leaves an
  empty piece after the trailing white space.
\<close>

theorem C5_wordCount_counterexample:
  "example_parse (clean_response ''Sorry, no JSON today'') = None
   \<and> map_option wordCount
        (ai_analysis
           (fst (AnalyzeWithAI example_env True example_parse (Reply ''Sorry, no JSON today'')
                   ''c1'' (example_store [example_item ''c1'' example_body ''en'' Validated])))
           ''c1'')
       = Some (Fin 23)
   \<and> count_words example_body = 22"
proof -
  have h1: "get_content (example_store [example_item ''c1'' example_body ''en'' Validated]) ''c1''
     = Some (example_item ''c1'' example_body ''en'' Validated)"
    by (simp add: get_content_def example_store_def example_item_def)
  have h2: "example_parse (clean_response ''Sorry, no JSON today'') = None"
    by (simp add: example_parse_def clean_response_def trim_def isWhiteSpace_def startsWith_def)
  have b: "body (example_item ''c1'' example_body ''en'' Validated) = example_body"
    by (simp add: example_item_def)
  have d: "analysisData_of example_parse example_body ''Sorry, no JSON today''
      = fallback_analysis example_body"
    using h2 by (rule analysisData_of_None)
  have n: "analysisData_of example_parse
      (body (example_item ''c1'' example_body ''en'' Validated)) ''Sorry, no JSON today'' \<noteq> JNull"
    unfolding b d by (rule fallback_analysis_not_null)
  have w: "length (split_ws example_body) = 23"
    by (simp add: split_ws_def example_body_def isWhiteSpace_def)
  have c: "count_words example_body = 22"
    by (simp add: count_words_def example_body_def isWhiteSpace_def)
  have "map_option wordCount
        (ai_analysis
           (fst (AnalyzeWithAI example_env True example_parse (Reply ''Sorry, no JSON today'')
                   ''c1'' (example_store [example_item ''c1'' example_body ''en'' Validated])))
           ''c1'')
       = Some (Fin (real (length (split_ws example_body))))"
    using AnalyzeWithAI_success(1) [OF h1 n, of example_env]
    unfolding b d make_aiAnalysis_fallback
    by (simp add: fallback_result_def)
  then show ?thesis
    using h2 c unfolding w by simp
qed

text \<open>
  C5, amended. When parsing the cleaned model response throws, the analysis stored for
  the item (on the item and in the analysis collection) is the fallback computed from
  the body: sentiment \<open>neutral\<close>, no topics, strengths or weaknesses, both scores 50,
  as summary the first 200 characters of the body followed by three dots, and as word
  count the number of pieces of \<open>body.split(/\s+/)\<close>, which is the number of
  whitespace-separated words of the body, plus one when the body is empty or starts
  with white space, plus one when it ends with white space.
\<close>

theorem C5_parse_failure_fallback:
  assumes "get_content st cid = Some cs" and "parse (clean_response aiResponse) = None"
  shows "ai_analysis (fst (AnalyzeWithAI e True parse (Reply aiResponse) cid st)) cid
           = Some (fallback_result (body cs) (clock e 1))
       \<and> map_option aiAnalysis
           (get_content (fst (AnalyzeWithAI e True parse (Reply aiResponse) cid st)) cid)
           = Some (Some (fallback_result (body cs) (clock e 1)))
       \<and> fallback_result (body cs) (clock e 1) =
           \<lparr>sentiment = JStr ''neutral'', topics = [], readabilityScore = Fin 50,
            wordCount = Fin (real (length (split_ws (body cs)))), qualityScore = Fin 50,
            summary = take 200 (body cs) @ ''...'', strengths = [], weaknesses = [],
            analyzedAt = clock e 1\<rparr>
       \<and> length (split_ws (body cs))
           = count_words (body cs)
             + (if body cs = [] \<or> isWhiteSpace (hd (body cs)) then 1 else 0)
             + (if body cs \<noteq> [] \<and> isWhiteSpace (last (body cs)) then 1 else 0)"
proof -
  have d: "analysisData_of parse (body cs) aiResponse = fallback_analysis (body cs)"
    using assms(2) by (rule analysisData_of_None)
  have n: "analysisData_of parse (body cs) aiResponse \<noteq> JNull"
    unfolding d by (rule fallback_analysis_not_null)
  show ?thesis
    using AnalyzeWithAI_success(1,2) [OF assms(1) n, of e] length_split_ws [of "body cs"]
    unfolding d make_aiAnalysis_fallback
    by (simp add: fallback_result_def)
qed

theorem C5_parse_failure_fallback_witness:
  "get_content (example_store [example_item ''c1'' '' one two  three'' ''en'' Validated]) ''c1''
     = Some (example_item ''c1'' '' one two  three'' ''en'' Validated)
   \<and> example_parse (clean_response ''Sorry, no JSON today'') = None
   \<and> ai_analysis
        (fst (AnalyzeWithAI example_env True example_parse (Reply ''Sorry, no JSON today'') ''c1''
                (example_store [example_item ''c1'' '' one two  three'' ''en'' Validated])))
        ''c1''
       = Some \<lparr>sentiment = JStr ''neutral'', topics = [], readabilityScore = Fin 50,
               wordCount = Fin 4, qualityScore = Fin 50,
               summary = '' one two  three...'', strengths = [], weaknesses = [],
               analyzedAt = ''2025-01-01T00:00:00.000Z''\<rparr>"
proof -
  have h1: "get_content (example_store [example_item ''c1'' '' one two  three'' ''en'' Validated]) ''c1''
     = Some (example_item ''c1'' '' one two  three'' ''en'' Validated)"
    by (simp add: get_content_def example_store_def example_item_def)
  have h2: "example_parse (clean_response ''Sorry, no JSON today'') = None"
    by (simp add: example_parse_def clean_response_def trim_def isWhiteSpace_def startsWith_def)
  have b: "body (example_item ''c1'' '' one two  three'' ''en'' Validated) = '' one two  three''"
    by (simp add: example_item_def)
  have w: "split_ws '' one two  three'' = [[], ''one'', ''two'', ''three'']"
    by (simp add: split_ws_def isWhiteSpace_def)
  have c: "clock example_env n = ''2025-01-01T00:00:00.000Z''" for n
    by (simp add: example_env_def)
  show ?thesis
    using C5_parse_failure_fallback
      [where parse = example_parse and aiResponse = "''Sorry, no JSON today''", OF h1 h2,
       of example_env] h1 h2
    by (simp add: b w c)
qed

text \<open>
  C6, as stated, fails for the word count: a response whose \<open>wordCount\<close> is 250 is
  stored with word count 250.
\<close>

theorem C6_wordCount_counterexample:
  \<open>map_option wordCount
     (ai_analysis
        (fst (AnalyzeWithAI example_env True example_parse
                (Reply ''{"wordCount":250,"qualityScore":120}'') ''c1''
                (example_store [example_item ''c1'' ''some text'' ''en'' Validated])))
        ''c1'')
     = Some (Fin 250)
   \<and> \<not> ((250::real) \<le> 100)\<close>
proof -
  have h1: "get_content (example_store [example_item ''c1'' ''some text'' ''en'' Validated]) ''c1''
     = Some (example_item ''c1'' ''some text'' ''en'' Validated)"
    by (simp add: get_content_def example_store_def example_item_def)
  have h2: \<open>example_parse (clean_response ''{"wordCount":250,"qualityScore":120}'')
      = Some (JObj [(''wordCount'', JNum (Fin 250)), (''qualityScore'', JNum (Fin 120))])\<close>
    by (simp add: example_parse_def clean_response_def trim_def isWhiteSpace_def startsWith_def)
  have d: \<open>analysisData_of example_parse b ''{"wordCount":250,"qualityScore":120}''
      = JObj [(''wordCount'', JNum (Fin 250)), (''qualityScore'', JNum (Fin 120))]\<close> for b
    using h2 by (rule analysisData_of_Some)
  have n: \<open>analysisData_of example_parse
       (body (example_item ''c1'' ''some text'' ''en'' Validated))
       ''{"wordCount":250,"qualityScore":120}'' \<noteq> JNull\<close>
    unfolding d by simp
  show ?thesis
    using AnalyzeWithAI_success(1) [OF h1 n, of example_env]
    unfolding d
    by (simp add: make_aiAnalysis_def get_prop_def)
qed

text \<open>
  C6, amended. For every parsed response other than \<open>null\<close>, the stored readability
  score and quality score lie between 0 and 100; the stored word count is the number
  the response gave, unclamped, or the split count of the body when it gave none.
\<close>

theorem C6_scores_clamped:
  assumes "get_content st cid = Some cs"
    and "parse (clean_response aiResponse) = Some j"
    and "j \<noteq> JNull"
    and "no_NaN j"
  shows "\<exists>a. ai_analysis (fst (AnalyzeWithAI e True parse (Reply aiResponse) cid st)) cid = Some a
       \<and> map_option aiAnalysis
           (get_content (fst (AnalyzeWithAI e True parse (Reply aiResponse) cid st)) cid)
           = Some (Some a)
       \<and> score_in_range (readabilityScore a)
       \<and> score_in_range (qualityScore a)
       \<and> wordCount a =
           (case get_prop j ''wordCount'' of
              Some (JNum x) \<Rightarrow> x
            | _ \<Rightarrow> Fin (real (length (split_ws (body cs)))))"
proof -
  have d: "analysisData_of parse (body cs) aiResponse = j"
    using assms(2) by (rule analysisData_of_Some)
  have n: "analysisData_of parse (body cs) aiResponse \<noteq> JNull"
    unfolding d by (rule assms(3))
  have w: "wordCount (make_aiAnalysis j (body cs) (clock e 1)) =
           (case get_prop j ''wordCount'' of
              Some (JNum x) \<Rightarrow> x
            | _ \<Rightarrow> Fin (real (length (split_ws (body cs)))))"
    by (simp add: make_aiAnalysis_def)
  show ?thesis
    using AnalyzeWithAI_success(1,2) [OF assms(1) n, of e] make_aiAnalysis_scores [OF assms(4)] w
    unfolding d by blast
qed

theorem C6_scores_clamped_witness:
  \<open>get_content (example_store [example_item ''c1'' ''some text'' ''en'' Validated]) ''c1''
     = Some (example_item ''c1'' ''some text'' ''en'' Validated)
   \<and> example_parse (clean_response ''{"wordCount":250,"qualityScore":120}'')
      = Some (JObj [(''wordCount'', JNum (Fin 250)), (''qualityScore'', JNum (Fin 120))])
   \<and> no_NaN (JObj [(''wordCount'', JNum (Fin 250)), (''qualityScore'', JNum (Fin 120))])
   \<and> (\<exists>a. ai_analysis
            (fst (AnalyzeWithAI example_env True example_parse
                    (Reply ''{"wordCount":250,"qualityScore":120}'') ''c1''
                    (example_store [example_item ''c1'' ''some text'' ''en'' Validated])))
            ''c1'' = Some a
          \<and> score_in_range (readabilityScore a) \<and> score_in_range (qualityScore a)
          \<and> wordCount a = Fin 250)\<close>
proof -
  have h1: "get_content (example_store [example_item ''c1'' ''some text'' ''en'' Validated]) ''c1''
     = Some (example_item ''c1'' ''some text'' ''en'' Validated)"
    by (simp add: get_content_def example_store_def example_item_def)
  have h2: \<open>example_parse (clean_response ''{"wordCount":250,"qualityScore":120}'')
      = Some (JObj [(''wordCount'', JNum (Fin 250)), (''qualityScore'', JNum (Fin 120))])\<close>
    by (simp add: example_parse_def clean_response_def trim_def isWhiteSpace_def startsWith_def)
  have h3: "JObj [(''wordCount'', JNum (Fin 250)), (''qualityScore'', JNum (Fin 120))] \<noteq> JNull"
    by simp
  have h4: "no_NaN (JObj [(''wordCount'', JNum (Fin 250)), (''qualityScore'', JNum (Fin 120))])"
    by simp
  from C6_scores_clamped
      [where parse = example_parse
         and aiResponse = \<open>''{"wordCount":250,"qualityScore":120}''\<close>,
       OF h1 h2 h3 h4, of example_env]
  obtain a where a: \<open>ai_analysis
            (fst (AnalyzeWithAI example_env True example_parse
                    (Reply ''{"wordCount":250,"qualityScore":120}'') ''c1''
                    (example_store [example_item ''c1'' ''some text'' ''en'' Validated])))
            ''c1'' = Some a\<close>
      "score_in_range (readabilityScore a)" "score_in_range (qualityScore a)"
      "wordCount a =
        (case get_prop (JObj [(''wordCount'', JNum (Fin 250)), (''qualityScore'', JNum (Fin 120))])
                ''wordCount'' of
           Some (JNum x) \<Rightarrow> x
         | _ \<Rightarrow> Fin (real (length (split_ws
                  (body (example_item ''c1'' ''some text'' ''en'' Validated))))))"
    by blast
  from a(4) have w: "wordCount a = Fin 250" by (simp add: get_prop_def)
  show ?thesis
    using h1 h2 h4 a(1,2,3) w by blast
qed

section \<open>Properties of the vote handler\<close>

lemma votes_coll_set_content [simp]: "votes_coll (set_content k v st) = votes_coll st"
  by (simp add: set_content_def)

lemma set_content_triv: "get_content st k = Some v \<Longrightarrow> set_content k v st = st"
  by (simp add: get_content_def set_content_def update_triv)

lemma vote_target_SomeD:
  assumes "vote_target req st = Some (cs, r)"
  shows "v_contentId req \<noteq> []" and "v_recommendationId req \<noteq> []"
    and "v_userId req \<noteq> []" and "v_vote req \<noteq> []" and "v_vote req \<in> set [''up'', ''down'']"
    and "get_content st (v_contentId req) = Some cs"
    and "find (\<lambda>r. rec_id r = v_recommendationId req)
           (case recommendations cs of None \<Rightarrow> [] | Some rs \<Rightarrow> rs) = Some r"
proof -
  show a: "v_contentId req \<noteq> []" and b: "v_recommendationId req \<noteq> []"
    using assms by (auto simp: vote_target_def split: if_splits)
  show c: "v_userId req \<noteq> []" and d: "v_vote req \<noteq> []"
    and e: "v_vote req \<in> set [''up'', ''down'']"
    using assms a b by (auto simp: vote_target_def split: if_splits)
  have f: "(case get_content st (v_contentId req) of
             None \<Rightarrow> None
           | Some cs \<Rightarrow>
               map_option (Pair cs)
                 (find (\<lambda>r. rec_id r = v_recommendationId req)
                    (case recommendations cs of None \<Rightarrow> [] | Some rs \<Rightarrow> rs))) = Some (cs, r)"
    using assms a b c d e by (auto simp: vote_target_def split: if_splits)
  then show g: "get_content st (v_contentId req) = Some cs"
    by (cases "get_content st (v_contentId req)") auto
  from f show "find (\<lambda>r. rec_id r = v_recommendationId req)
           (case recommendations cs of None \<Rightarrow> [] | Some rs \<Rightarrow> rs) = Some r"
    unfolding g by auto
qed

lemma Vote_store_none:
  assumes "vote_target req st = None"
  shows "fst (snd (VoteRecommendation e req st)) = st"
proof (cases "v_contentId req = [] \<or> v_recommendationId req = []")
  case True
  then show ?thesis by (simp add: VoteRecommendation_def Let_def)
next
  case c1: False
  show ?thesis
  proof (cases "v_userId req = [] \<or> v_vote req = [] \<or> v_vote req \<notin> set [''up'', ''down'']")
    case True
    then show ?thesis using c1 by (simp add: VoteRecommendation_def Let_def)
  next
    case c2: False
    show ?thesis
    proof (cases "get_content st (v_contentId req)")
      case None
      then show ?thesis using c1 c2 by (simp add: VoteRecommendation_def Let_def)
    next
      case (Some cs)
      have "find (\<lambda>r. rec_id r = v_recommendationId req)
              (case recommendations cs of None \<Rightarrow> [] | Some rs \<Rightarrow> rs) = None"
        using assms c1 c2 Some by (auto simp: vote_target_def split: if_splits)
      then show ?thesis using c1 c2 Some by (simp add: VoteRecommendation_def Let_def)
    qed
  qed
qed

lemma Vote_store_some:
  assumes "vote_target req st = Some (cs, r)"
  shows "fst (snd (VoteRecommendation e req st)) =
       set_content (v_contentId req) (item_after_vote req st cs)
         (st\<lparr>votes_coll := (votes_coll st)
               (voteKey (v_contentId req) (v_recommendationId req) \<mapsto> votes_after req st)\<rparr>)"
  using vote_target_SomeD [OF assms]
  by (simp add: VoteRecommendation_def Let_def votes_after_def item_after_vote_def)

lemma set_property_idem:
  "set_property (set_property obj k v) k v = set_property obj k v"
  by (auto simp: set_property_def update_triv update_conv' dom_update
      simp flip: dom_map_of_conv_image_fst)

lemma find_update_first:
  "(\<And>x. p (f x) = p x) \<Longrightarrow> find p (update_first p f xs) = map_option f (find p xs)"
  by (induction xs) auto

lemma update_first_idem:
  "(\<And>x. p (f x) = p x) \<Longrightarrow> (\<And>x. f (f x) = f x) \<Longrightarrow>
     update_first p f (update_first p f xs) = update_first p f xs"
  by (induction xs) auto

lemma votes_after_store_after_vote:
  "votes_after req (store_after_vote req st cs) = votes_after req st"
  by (simp add: votes_after_def store_after_vote_def set_property_idem)

lemma item_after_vote_idem:
  "item_after_vote req (store_after_vote req st cs) (item_after_vote req st cs)
     = item_after_vote req st cs"
  unfolding item_after_vote_def votes_after_store_after_vote
  by (cases "recommendations cs") (simp_all add: update_first_idem)

lemma get_content_store_after_vote:
  "get_content (store_after_vote req st cs) (v_contentId req) = Some (item_after_vote req st cs)"
  by (simp add: store_after_vote_def)

lemma find_item_after_vote:
  assumes "find (\<lambda>r. rec_id r = v_recommendationId req)
             (case recommendations cs of None \<Rightarrow> [] | Some rs \<Rightarrow> rs) = Some r"
  shows "find (\<lambda>r. rec_id r = v_recommendationId req)
           (case recommendations (item_after_vote req st cs) of None \<Rightarrow> [] | Some rs \<Rightarrow> rs)
         = Some (r\<lparr>votes := Some (new_votes req st)\<rparr>)"
  using assms
  by (cases "recommendations cs")
     (simp_all add: item_after_vote_def find_update_first new_votes_def)

lemma vote_target_store_after_vote:
  assumes "vote_target req st = Some (cs, r)"
  shows "vote_target req (store_after_vote req st cs)
           = Some (item_after_vote req st cs, r\<lparr>votes := Some (new_votes req st)\<rparr>)"
  using vote_target_SomeD [OF assms] find_item_after_vote [of req cs r st]
  by (simp add: vote_target_def get_content_store_after_vote)

lemma store_after_vote_idem:
  "store_after_vote req (store_after_vote req st cs) (item_after_vote req st cs)
     = store_after_vote req st cs"
proof -
  have v: "votes_coll (store_after_vote req st cs)
             (voteKey (v_contentId req) (v_recommendationId req)) = Some (votes_after req st)"
    by (simp add: store_after_vote_def)
  have "(votes_coll (store_after_vote req st cs))
          (voteKey (v_contentId req) (v_recommendationId req) \<mapsto> votes_after req st)
        = votes_coll (store_after_vote req st cs)"
    using v by (rule map_upd_triv)
  then have "store_after_vote req (store_after_vote req st cs) (item_after_vote req st cs)
      = set_content (v_contentId req) (item_after_vote req st cs) (store_after_vote req st cs)"
    unfolding store_after_vote_def [of req "store_after_vote req st cs"]
      votes_after_store_after_vote item_after_vote_idem
    by simp
  also have "\<dots> = store_after_vote req st cs"
    by (rule set_content_triv) (rule get_content_store_after_vote)
  finally show ?thesis .
qed

lemma Vote_twice:
  "fst (snd (VoteRecommendation e2 req (fst (snd (VoteRecommendation e1 req st)))))
     = fst (snd (VoteRecommendation e1 req st))"
proof (cases "vote_target req st")
  case None
  then show ?thesis by (simp add: Vote_store_none)
next
  case (Some p)
  obtain cs r where p: "p = (cs, r)" by (cases p)
  have t: "vote_target req st = Some (cs, r)" using Some p by simp
  have one: "fst (snd (VoteRecommendation e1 req st)) = store_after_vote req st cs"
    using Vote_store_some [OF t] by (simp add: store_after_vote_def)
  have two: "fst (snd (VoteRecommendation e2 req (store_after_vote req st cs)))
      = store_after_vote req (store_after_vote req st cs) (item_after_vote req st cs)"
    using Vote_store_some [OF vote_target_store_after_vote [OF t]]
    by (simp add: store_after_vote_def)
  show ?thesis unfolding one two by (rule store_after_vote_idem)
qed

lemma distinct_keys_filter_le_one:
  "distinct (map fst obj) \<Longrightarrow> length (filter (\<lambda>p. fst p = k) obj) \<le> 1"
proof (induction obj)
  case Nil
  then show ?case by simp
next
  case (Cons a obj)
  show ?case
  proof (cases "fst a = k")
    case True
    then have "k \<notin> fst ` set obj" using Cons.prems by auto
    then have "filter (\<lambda>p. fst p = k) obj = []" by (auto simp: filter_empty_conv)
    then show ?thesis using True by simp
  next
    case False
    then show ?thesis using Cons by simp
  qed
qed

lemma set_property_distinct:
  "distinct (map fst obj) \<Longrightarrow> distinct (map fst (set_property obj k v))"
  by (simp add: set_property_def distinct_update)

lemma count_votes_le_length: "count_votes x obj \<le> length obj"
  by (simp add: count_votes_def)

text \<open>
  C8. Casting the same vote twice in succession from the same user on the same content
  item and recommendation leaves the store exactly as casting it once does, from every
  prior store: the same vote map and the same counts on the recommendation. After a
  vote that reaches a recommendation, the stored vote map is the prior one with the
  user's entry overwritten, the counts on the recommendation are recomputed from it,
  and, the map having one entry per user, the user contributes at most one upvote.
\<close>

theorem C8_vote_idempotent:
  "fst (snd (VoteRecommendation e2 req (fst (snd (VoteRecommendation e1 req st)))))
     = fst (snd (VoteRecommendation e1 req st))
   \<and> (\<forall>cs r. vote_target req st = Some (cs, r) \<longrightarrow>
         votes_coll (fst (snd (VoteRecommendation e1 req st)))
           (voteKey (v_contentId req) (v_recommendationId req)) = Some (votes_after req st)
       \<and> map_option
           (\<lambda>c. find (\<lambda>r. rec_id r = v_recommendationId req)
                  (case recommendations c of None \<Rightarrow> [] | Some rs \<Rightarrow> rs))
           (get_content (fst (snd (VoteRecommendation e1 req st))) (v_contentId req))
          = Some (Some (r\<lparr>votes := Some \<lparr>upvotes = count_votes ''up'' (votes_after req st),
                                          downvotes = count_votes ''down'' (votes_after req st),
                                          userVotes = votes_after req st\<rparr>\<rparr>))
       \<and> (distinct (map fst (votes_before req st)) \<longrightarrow>
            distinct (map fst (votes_after req st))
          \<and> count_votes ''up'' (filter (\<lambda>p. fst p = v_userId req) (votes_after req st)) \<le> 1))"
proof (intro conjI allI impI)
  show "fst (snd (VoteRecommendation e2 req (fst (snd (VoteRecommendation e1 req st)))))
     = fst (snd (VoteRecommendation e1 req st))"
    by (rule Vote_twice)
next
  fix cs r assume t: "vote_target req st = Some (cs, r)"
  show "votes_coll (fst (snd (VoteRecommendation e1 req st)))
           (voteKey (v_contentId req) (v_recommendationId req)) = Some (votes_after req st)"
    unfolding Vote_store_some [OF t] by simp
next
  fix cs r assume t: "vote_target req st = Some (cs, r)"
  have "get_content (fst (snd (VoteRecommendation e1 req st))) (v_contentId req)
      = Some (item_after_vote req st cs)"
    unfolding Vote_store_some [OF t] by simp
  then show "map_option
           (\<lambda>c. find (\<lambda>r. rec_id r = v_recommendationId req)
                  (case recommendations c of None \<Rightarrow> [] | Some rs \<Rightarrow> rs))
           (get_content (fst (snd (VoteRecommendation e1 req st))) (v_contentId req))
          = Some (Some (r\<lparr>votes := Some \<lparr>upvotes = count_votes ''up'' (votes_after req st),
                                          downvotes = count_votes ''down'' (votes_after req st),
                                          userVotes = votes_after req st\<rparr>\<rparr>))"
    using find_item_after_vote [OF vote_target_SomeD(7) [OF t], of st]
    by (simp add: new_votes_def)
next
  fix cs r assume d: "distinct (map fst (votes_before req st))"
  show "distinct (map fst (votes_after req st))"
    using set_property_distinct [OF d]
    by (simp add: votes_after_def votes_before_def)
next
  fix cs r assume d: "distinct (map fst (votes_before req st))"
  have dd: "distinct (map fst (votes_after req st))"
    using set_property_distinct [OF d]
    by (simp add: votes_after_def votes_before_def)
  have "count_votes ''up'' (filter (\<lambda>p. fst p = v_userId req) (votes_after req st))
      \<le> length (filter (\<lambda>p. fst p = v_userId req) (votes_after req st))"
    by (rule count_votes_le_length)
  also have "\<dots> \<le> 1"
    using dd by (rule distinct_keys_filter_le_one)
  finally show "count_votes ''up'' (filter (\<lambda>p. fst p = v_userId req) (votes_after req st)) \<le> 1" .
qed

theorem C8_vote_idempotent_witness:
  "vote_target example_vote example_vote_store
     = Some ((example_item ''c1'' ''text'' ''en'' Completed)
               \<lparr>recommendations := Some [example_recommendation ''r1'']\<rparr>,
             example_recommendation ''r1'')
   \<and> distinct (map fst (votes_before example_vote example_vote_store))
   \<and> votes_after example_vote example_vote_store = [(''u0'', ''up''), (''u1'', ''up'')]
   \<and> votes_coll
        (fst (snd (VoteRecommendation example_env example_vote
                     (fst (snd (VoteRecommendation example_env example_vote
                                  example_vote_store))))))
        ''votes_c1_r1''
       = Some [(''u0'', ''up''), (''u1'', ''up'')]
   \<and> count_votes ''up'' (filter (\<lambda>p. fst p = ''u1'') [(''u0'', ''up''), (''u1'', ''up'')]) \<le> 1"
proof -
  have t: "vote_target example_vote example_vote_store
     = Some ((example_item ''c1'' ''text'' ''en'' Completed)
               \<lparr>recommendations := Some [example_recommendation ''r1'']\<rparr>,
             example_recommendation ''r1'')"
    by (simp add: vote_target_def example_vote_def example_vote_store_def example_store_def
        example_item_def example_recommendation_def get_content_def)
  have d: "distinct (map fst (votes_before example_vote example_vote_store))"
    by (simp add: votes_before_def example_vote_def example_vote_store_def example_store_def
        voteKey_def)
  have a: "votes_after example_vote example_vote_store = [(''u0'', ''up''), (''u1'', ''up'')]"
    by (simp add: votes_after_def example_vote_def example_vote_store_def example_store_def
        voteKey_def set_property_def)
  have k: "voteKey (v_contentId example_vote) (v_recommendationId example_vote) = ''votes_c1_r1''"
    by (simp add: voteKey_def example_vote_def)
  have u: "v_userId example_vote = ''u1''"
    by (simp add: example_vote_def)
  show ?thesis
    using C8_vote_idempotent [of example_env example_vote example_env example_vote_store] t d
    unfolding a k u
    by simp
qed

section \<open>Properties of the apply handler that swaps the body\<close>

lemma ApplyImprovedContent_200:
  assumes "ApplyImprovedContent e cid st = (200, st', tr)"
  shows "\<exists>cs ic. get_content st cid = Some cs \<and> improvedContent cs = Some ic
       \<and> st' = set_content cid
                 (cs\<lparr>body := improvedBody ic,
                     improvedContent := Some (ic\<lparr>appliedAt := Some (clock e 0)\<rparr>),
                     updatedAt := clock e 1\<rparr>) st
       \<and> tr = [SetContent cid
                 (cs\<lparr>body := improvedBody ic,
                     improvedContent := Some (ic\<lparr>appliedAt := Some (clock e 0)\<rparr>),
                     updatedAt := clock e 1\<rparr>)]"
proof (cases "get_content st cid")
  case None
  then show ?thesis using assms by (simp add: ApplyImprovedContent_def split: if_splits)
next
  case (Some cs)
  show ?thesis
  proof (cases "improvedContent cs")
    case None
    then show ?thesis using assms Some by (simp add: ApplyImprovedContent_def split: if_splits)
  next
    case ic: (Some ic)
    show ?thesis
      using assms Some ic
      by (auto simp add: ApplyImprovedContent_def Let_def split: if_splits)
  qed
qed

text \<open>
  C9. When the handler that merely swaps the body answers 200, the stored item differs
  from the one it read only in \<open>body\<close> (now the improved body), in the \<open>appliedAt\<close>
  stamp of the improvement and in \<open>updatedAt\<close>; the workflow status, the analysis, the
  recommendations and every other field are as before, no other item and no other
  collection changes, and the handler's only effect is that one write: it emits no
  event.
\<close>

theorem C9_apply_changes_only_body:
  assumes "ApplyImprovedContent e cid st = (200, st', tr)"
  shows "\<exists>cs ic cs'.
         get_content st cid = Some cs \<and> improvedContent cs = Some ic
       \<and> get_content st' cid = Some cs'
       \<and> cs' = cs\<lparr>body := improvedBody ic,
                   improvedContent := Some (ic\<lparr>appliedAt := Some (clock e 0)\<rparr>),
                   updatedAt := clock e 1\<rparr>
       \<and> workflowStatus cs' = workflowStatus cs \<and> aiAnalysis cs' = aiAnalysis cs
       \<and> recommendations cs' = recommendations cs
       \<and> validationResult cs' = validationResult cs
       \<and> contentId cs' = contentId cs \<and> title cs' = title cs \<and> author cs' = author cs
       \<and> language cs' = language cs \<and> userId cs' = userId cs \<and> createdAt cs' = createdAt cs
       \<and> st' = st\<lparr>content := AList.update cid cs' (content st)\<rparr>
       \<and> (\<forall>k. k \<noteq> cid \<longrightarrow> get_content st' k = get_content st k)
       \<and> tr = [SetContent cid cs'] \<and> emitted_topics tr = []"
proof -
  from ApplyImprovedContent_200 [OF assms]
  obtain cs ic where g: "get_content st cid = Some cs" and i: "improvedContent cs = Some ic"
    and s: "st' = set_content cid
                 (cs\<lparr>body := improvedBody ic,
                     improvedContent := Some (ic\<lparr>appliedAt := Some (clock e 0)\<rparr>),
                     updatedAt := clock e 1\<rparr>) st"
    and t: "tr = [SetContent cid
                 (cs\<lparr>body := improvedBody ic,
                     improvedContent := Some (ic\<lparr>appliedAt := Some (clock e 0)\<rparr>),
                     updatedAt := clock e 1\<rparr>)]"
    by blast
  show ?thesis
    apply (rule exI [of _ cs])
    apply (rule exI [of _ ic])
    apply (rule exI [of _ "cs\<lparr>body := improvedBody ic,
                     improvedContent := Some (ic\<lparr>appliedAt := Some (clock e 0)\<rparr>),
                     updatedAt := clock e 1\<rparr>"])
    using g i s t
    apply (simp add: set_content_def [symmetric])
    done
qed

theorem C9_apply_changes_only_body_witness:
  "ApplyImprovedContent example_env ''c1'' example_apply_store
     = (200,
        set_content ''c1''
          ((example_item ''c1'' ''better text'' ''en'' Completed)
             \<lparr>improvedContent :=
                Some (example_improved\<lparr>appliedAt := Some ''2025-01-01T00:00:00.000Z''\<rparr>),
              updatedAt := ''2025-01-01T00:00:00.000Z''\<rparr>)
          example_apply_store,
        [SetContent ''c1''
          ((example_item ''c1'' ''better text'' ''en'' Completed)
             \<lparr>improvedContent :=
                Some (example_improved\<lparr>appliedAt := Some ''2025-01-01T00:00:00.000Z''\<rparr>),
              updatedAt := ''2025-01-01T00:00:00.000Z''\<rparr>)])
   \<and> (\<exists>cs'. get_content
              (set_content ''c1''
                 ((example_item ''c1'' ''better text'' ''en'' Completed)
                    \<lparr>improvedContent :=
                       Some (example_improved\<lparr>appliedAt := Some ''2025-01-01T00:00:00.000Z''\<rparr>),
                     updatedAt := ''2025-01-01T00:00:00.000Z''\<rparr>)
                 example_apply_store) ''c1'' = Some cs'
           \<and> workflowStatus cs' = Completed \<and> body cs' = ''better text'')"
proof -
  have h: "ApplyImprovedContent example_env ''c1'' example_apply_store
     = (200,
        set_content ''c1''
          ((example_item ''c1'' ''better text'' ''en'' Completed)
             \<lparr>improvedContent :=
                Some (example_improved\<lparr>appliedAt := Some ''2025-01-01T00:00:00.000Z''\<rparr>),
              updatedAt := ''2025-01-01T00:00:00.000Z''\<rparr>)
          example_apply_store,
        [SetContent ''c1''
          ((example_item ''c1'' ''better text'' ''en'' Completed)
             \<lparr>improvedContent :=
                Some (example_improved\<lparr>appliedAt := Some ''2025-01-01T00:00:00.000Z''\<rparr>),
              updatedAt := ''2025-01-01T00:00:00.000Z''\<rparr>)])"
    by (simp add: ApplyImprovedContent_def Let_def example_apply_store_def example_store_def
        example_item_def example_improved_def example_env_def get_content_def)
  show ?thesis
    using C9_apply_changes_only_body [OF h] h
    by (auto simp add: example_item_def)
qed

section \<open>Properties of the retention job\<close>

lemma is_stale_iff: "is_stale now getTime c = older_than_90_days now getTime c"
  by (auto simp: is_stale_def older_than_90_days_def staleThreshold_def STALE_AGE_DAYS_def
      split: option.splits)

lemma process_item_due:
  "retention_due now getTime c \<Longrightarrow>
     process_item now getTime acc c =
       \<lparr>d_store =
          (d_store acc)
            \<lparr>content := AList.delete (contentId c) (content (d_store acc)),
             workflow := (workflow (d_store acc))(contentId c := None)\<rparr>,
        d_staleContentCount = d_staleContentCount acc + 1,
        d_deletedContentIds = d_deletedContentIds acc @ [contentId c],
        d_trace = d_trace acc
          @ [DeleteState ''content'' (contentId c), DeleteState ''workflow'' (contentId c)]\<rparr>"
  by (simp add: process_item_def is_stale_iff retention_due_def is_final_state_def)

lemma process_item_not_due:
  "\<not> retention_due now getTime c \<Longrightarrow> process_item now getTime acc c = acc"
  by (auto simp add: process_item_def is_stale_iff retention_due_def is_final_state_def)

lemma foldl_process_item_deleted:
  "d_deletedContentIds (foldl (process_item now getTime) acc cs)
     = d_deletedContentIds acc @ map contentId (filter (retention_due now getTime) cs)"
proof (induction cs arbitrary: acc)
  case Nil
  then show ?case by simp
next
  case (Cons c cs)
  show ?case
  proof (cases "retention_due now getTime c")
    case True
    then show ?thesis by (simp add: Cons.IH process_item_due)
  next
    case False
    then show ?thesis by (simp add: Cons.IH process_item_not_due)
  qed
qed

lemma foldl_process_item_content:
  "content (d_store (foldl (process_item now getTime) acc cs))
     = filter (\<lambda>p. fst p \<notin> contentId ` {c \<in> set cs. retention_due now getTime c})
         (content (d_store acc))"
proof (induction cs arbitrary: acc)
  case Nil
  then show ?case by simp
next
  case (Cons c cs)
  show ?case
  proof (cases "retention_due now getTime c")
    case True
    have "{x \<in> set (c # cs). retention_due now getTime x}
        = insert c {x \<in> set cs. retention_due now getTime x}"
      using True by auto
    then show ?thesis
      using True
      by (auto simp add: Cons.IH process_item_due AList.delete_eq intro!: filter_cong)
  next
    case False
    have "{x \<in> set (c # cs). retention_due now getTime x}
        = {x \<in> set cs. retention_due now getTime x}"
      using False by auto
    then show ?thesis using False by (simp add: Cons.IH process_item_not_due)
  qed
qed

lemma foldl_process_item_workflow:
  "workflow (d_store (foldl (process_item now getTime) acc cs)) k
     = (if k \<in> contentId ` {c \<in> set cs. retention_due now getTime c} then None
        else workflow (d_store acc) k)"
proof (induction cs arbitrary: acc)
  case Nil
  then show ?case by simp
next
  case (Cons c cs)
  show ?case
  proof (cases "retention_due now getTime c")
    case True
    have "{x \<in> set (c # cs). retention_due now getTime x}
        = insert c {x \<in> set cs. retention_due now getTime x}"
      using True by auto
    then show ?thesis
      using True by (simp add: Cons.IH process_item_due)
  next
    case False
    have "{x \<in> set (c # cs). retention_due now getTime x}
        = {x \<in> set cs. retention_due now getTime x}"
      using False by auto
    then show ?thesis using False by (simp add: Cons.IH process_item_not_due)
  qed
qed

lemma map_of_filter_keys:
  "map_of (filter (\<lambda>p. fst p \<notin> D) al) k = (if k \<in> D then None else map_of al k)"
  by (induction al) auto

lemma DailyProcessing_content:
  "get_content (d_store (DailyProcessing now getTime st)) k
     = (if k \<in> contentId ` {c \<in> snd ` set (content st). retention_due now getTime c} then None
        else get_content st k)"
  by (simp add: DailyProcessing_def Let_def get_content_def foldl_process_item_content
      map_of_filter_keys)

lemma DailyProcessing_workflow:
  "workflow (d_store (DailyProcessing now getTime st)) k
     = (if k \<in> contentId ` {c \<in> snd ` set (content st). retention_due now getTime c} then None
        else workflow st k)"
  by (simp add: DailyProcessing_def Let_def foldl_process_item_workflow)

lemma DailyProcessing_deleted:
  "d_deletedContentIds (DailyProcessing now getTime st)
     = map contentId (filter (retention_due now getTime) (map snd (content st)))"
  by (simp add: DailyProcessing_def Let_def foldl_process_item_deleted)

lemma consistent_lookup:
  assumes "store_consistent st" and "c \<in> snd ` set (content st)"
  shows "get_content st (contentId c) = Some c"
proof -
  from assms(2) obtain k where k: "(k, c) \<in> set (content st)" by auto
  then have "contentId c = k" using assms(1) by (auto simp: store_consistent_def)
  then show ?thesis
    using k assms(1) by (simp add: get_content_def store_consistent_def)
qed

lemma consistent_same_id:
  assumes "store_consistent st" and "c \<in> snd ` set (content st)" and "c' \<in> snd ` set (content st)"
    and "contentId c' = contentId c"
  shows "c' = c"
  using consistent_lookup [OF assms(1,2)] consistent_lookup [OF assms(1,3)] assms(4) by simp

lemma due_id_iff:
  assumes "store_consistent st" and "c \<in> snd ` set (content st)"
  shows "contentId c \<in> contentId ` {c' \<in> snd ` set (content st). retention_due now getTime c'}
           \<longleftrightarrow> retention_due now getTime c"
proof
  assume "contentId c \<in> contentId ` {c' \<in> snd ` set (content st). retention_due now getTime c'}"
  then obtain c' where c': "c' \<in> snd ` set (content st)" "retention_due now getTime c'"
    "contentId c = contentId c'"
    by auto
  have "c' = c" using assms c'(1) c'(3) [symmetric] by (rule consistent_same_id)
  then show "retention_due now getTime c" using c'(2) by simp
next
  assume "retention_due now getTime c"
  then show "contentId c \<in> contentId ` {c' \<in> snd ` set (content st). retention_due now getTime c'}"
    using assms(2) by blast
qed

text \<open>
  C2. For every item the retention job examines, the job deletes the item (its id is
  among the deleted ids, and afterwards neither its content record nor its workflow
  record exists) if and only if its creation date is more than 90 days before the
  current time and its status is \<open>completed\<close>, \<open>failed\<close> or \<open>rejected\<close>; otherwise
  both records are left as they were. In particular an item in status \<open>pending\<close>,
  \<open>validating\<close>, \<open>validated\<close>, \<open>analyzing\<close> or \<open>analyzed\<close> is never deleted,
  whatever its age.
\<close>

theorem C2_retention_deletes_old_final_items:
  assumes "store_consistent st" and "c \<in> snd ` set (content st)"
  shows "(contentId c \<in> set (d_deletedContentIds (DailyProcessing now getTime st))
            \<longleftrightarrow> retention_due now getTime c)
       \<and> (retention_due now getTime c \<longrightarrow>
            get_content (d_store (DailyProcessing now getTime st)) (contentId c) = None
          \<and> workflow (d_store (DailyProcessing now getTime st)) (contentId c) = None)
       \<and> (\<not> retention_due now getTime c \<longrightarrow>
            get_content (d_store (DailyProcessing now getTime st)) (contentId c) = Some c
          \<and> workflow (d_store (DailyProcessing now getTime st)) (contentId c)
              = workflow st (contentId c))
       \<and> (workflowStatus c \<in> {Pending, Validating, Validated, Analyzing, Analyzed} \<longrightarrow>
            get_content (d_store (DailyProcessing now getTime st)) (contentId c) = Some c
          \<and> contentId c \<notin> set (d_deletedContentIds (DailyProcessing now getTime st)))"
proof -
  note iff = due_id_iff [OF assms, of now getTime]
  have look: "get_content st (contentId c) = Some c"
    using assms by (rule consistent_lookup)
  have del: "contentId c \<in> set (d_deletedContentIds (DailyProcessing now getTime st))
            \<longleftrightarrow> retention_due now getTime c"
    using iff by (simp add: DailyProcessing_deleted image_def conj_commute)
  have gone: "retention_due now getTime c \<Longrightarrow>
            get_content (d_store (DailyProcessing now getTime st)) (contentId c) = None
          \<and> workflow (d_store (DailyProcessing now getTime st)) (contentId c) = None"
    using iff by (simp add: DailyProcessing_content DailyProcessing_workflow)
  have kept: "\<not> retention_due now getTime c \<Longrightarrow>
            get_content (d_store (DailyProcessing now getTime st)) (contentId c) = Some c
          \<and> workflow (d_store (DailyProcessing now getTime st)) (contentId c)
              = workflow st (contentId c)"
    using iff look by (simp add: DailyProcessing_content DailyProcessing_workflow)
  have nonfinal: "workflowStatus c \<in> {Pending, Validating, Validated, Analyzing, Analyzed}
      \<Longrightarrow> \<not> retention_due now getTime c"
    by (auto simp: retention_due_def)
  show ?thesis
    using del gone kept nonfinal by blast
qed

theorem C2_retention_deletes_old_final_items_witness:
  "store_consistent example_retention_store
   \<and> example_aged_item ''c1'' Completed \<in> snd ` set (content example_retention_store)
   \<and> example_aged_item ''c2'' Analyzing \<in> snd ` set (content example_retention_store)
   \<and> retention_due 8000000000 example_getTime (example_aged_item ''c1'' Completed)
   \<and> older_than_90_days 8000000000 example_getTime (example_aged_item ''c2'' Analyzing)
   \<and> get_content (d_store (DailyProcessing 8000000000 example_getTime example_retention_store))
        ''c1'' = None
   \<and> get_content (d_store (DailyProcessing 8000000000 example_getTime example_retention_store))
        ''c2'' = Some (example_aged_item ''c2'' Analyzing)"
proof -
  have w: "store_consistent example_retention_store"
    by (simp add: store_consistent_def example_retention_store_def example_store_def
        example_aged_item_def example_item_def)
  have m1: "example_aged_item ''c1'' Completed \<in> snd ` set (content example_retention_store)"
    by (simp add: example_retention_store_def example_store_def)
  have m2: "example_aged_item ''c2'' Analyzing \<in> snd ` set (content example_retention_store)"
    by (simp add: example_retention_store_def example_store_def)
  have o: "older_than_90_days 8000000000 example_getTime (example_aged_item cid s)" for cid s
    by (simp add: older_than_90_days_def example_getTime_def example_aged_item_def
        example_item_def)
  have d1: "retention_due 8000000000 example_getTime (example_aged_item ''c1'' Completed)"
    using o by (simp add: retention_due_def example_aged_item_def example_item_def)
  have s2: "workflowStatus (example_aged_item ''c2'' Analyzing)
      \<in> {Pending, Validating, Validated, Analyzing, Analyzed}"
    by (simp add: example_aged_item_def example_item_def)
  have i1: "contentId (example_aged_item ''c1'' Completed) = ''c1''"
    and i2: "contentId (example_aged_item ''c2'' Analyzing) = ''c2''"
    by (simp_all add: example_aged_item_def example_item_def)
  show ?thesis
    using C2_retention_deletes_old_final_items [OF w m1, of 8000000000 example_getTime]
      C2_retention_deletes_old_final_items [OF w m2, of 8000000000 example_getTime]
      w m1 m2 o d1 s2
    unfolding i1 i2
    by blast
qed

section \<open>Status writes and best-effort notifications\<close>

lemma clock_with_failures [simp]: "clock (with_failures sf ef e) = clock e"
  by (simp add: with_failures_def)

lemma only_writes_status_then_notify:
  assumes "list_all is_write tr"
  shows "status_then_notify cid (st, tr)"
proof -
  have d: "dropWhile is_write tr = []"
    using assms by (simp add: list_all_iff dropWhile_eq_Nil_conv)
  have f: "filter is_notification tr = []"
    using assms by (auto simp: list_all_iff is_write_def filter_empty_conv)
  show ?thesis
    unfolding status_then_notify_def writes_then_notifications_def snd_conv d f
    by simp
qed

lemma ValidateContent_valid:
  assumes "get_content st cid = Some cs" and "isValid (make_validationResult e cs)"
  shows "ValidateContent e cid st =
    (let vr = make_validationResult e cs;
         cs1 = cs\<lparr>validationResult := Some vr, updatedAt := clock e 1\<rparr>;
         cs2 = cs1\<lparr>workflowStatus := Validated\<rparr>;
         st1 = set_content cid cs1 st;
         st2 = st1\<lparr>validation := (validation st1)(cid \<mapsto> vr)\<rparr>
     in (set_workflow cid Validated (set_content cid cs2 st2),
         [SetContent cid cs1, SetState ''validation'' cid, SetContent cid cs2,
          SetState ''workflow'' cid, StreamSend cid ''validation_completed'']
         @ (if stream_fails e then [] else [Emit ''content.validated''])))"
  using assms by (simp add: ValidateContent_def Let_def)

lemma ValidateContent_None:
  "get_content st cid = None \<Longrightarrow> ValidateContent e cid st = (st, [])"
  by (simp add: ValidateContent_def)

lemma make_validationResult_with_failures [simp]:
  "make_validationResult (with_failures sf ef e) cs = make_validationResult e cs"
  by (simp add: make_validationResult_def)

lemma ValidateContent_ordered:
  "status_then_notify cid (ValidateContent e cid st)"
proof (cases "get_content st cid")
  case None
  then show ?thesis
    by (simp add: ValidateContent_None only_writes_status_then_notify)
next
  case (Some cs)
  show ?thesis
  proof (cases "isValid (make_validationResult e cs)")
    case True
    show ?thesis
      unfolding ValidateContent_valid [OF Some True]
      by (simp add: Let_def status_then_notify_def writes_then_notifications_def is_write_def)
  next
    case False
    show ?thesis
      unfolding ValidateContent_invalid [OF Some False]
      by (simp add: Let_def status_then_notify_def writes_then_notifications_def is_write_def)
  qed
qed

lemma ValidateContent_failures:
  "fst (ValidateContent (with_failures sf ef e) cid st) = fst (ValidateContent e cid st)"
proof (cases "get_content st cid")
  case None
  then show ?thesis by (simp add: ValidateContent_None)
next
  case (Some cs)
  show ?thesis
  proof (cases "isValid (make_validationResult e cs)")
    case True
    then have t: "isValid (make_validationResult (with_failures sf ef e) cs)" by simp
    show ?thesis
      unfolding ValidateContent_valid [OF Some True] ValidateContent_valid [OF Some t]
      by (simp add: Let_def)
  next
    case False
    then have t: "\<not> isValid (make_validationResult (with_failures sf ef e) cs)" by simp
    show ?thesis
      unfolding ValidateContent_invalid [OF Some False] ValidateContent_invalid [OF Some t]
      by (simp add: Let_def)
  qed
qed

lemma AnalyzeWithAI_try_failures:
  "AnalyzeWithAI_try (with_failures sf ef e) k parse llm cid st = AnalyzeWithAI_try e k parse llm cid st"
  unfolding AnalyzeWithAI_try_def clock_with_failures by (rule refl)

lemma AnalyzeWithAI_catch_failures:
  "AnalyzeWithAI_catch (with_failures sf ef e) cid st = AnalyzeWithAI_catch e cid st"
  unfolding AnalyzeWithAI_catch_def clock_with_failures by (rule refl)

lemma AnalyzeWithAI_failures:
  "AnalyzeWithAI (with_failures sf ef e) k parse llm cid st = AnalyzeWithAI e k parse llm cid st"
  unfolding AnalyzeWithAI_def AnalyzeWithAI_try_failures AnalyzeWithAI_catch_failures
  by (rule refl)

lemma AnalyzeWithAI_catch_writes:
  "list_all is_write (snd (AnalyzeWithAI_catch e cid st))"
  by (simp add: AnalyzeWithAI_catch_def Let_def is_write_def split: option.splits)

lemma AnalyzeWithAI_try_Thrown:
  assumes "AnalyzeWithAI_try e k parse llm cid st = Thrown (s, t)"
  shows "list_all is_write t"
proof (cases k)
  case False
  then show ?thesis using assms by (simp add: AnalyzeWithAI_try_def)
next
  case True
  show ?thesis
  proof (cases "get_content st cid")
    case None
    then show ?thesis using assms True by (simp add: AnalyzeWithAI_try_def)
  next
    case (Some cs)
    show ?thesis
    proof (cases llm)
      case ApiFailure
      then show ?thesis
        using assms True Some by (auto simp add: AnalyzeWithAI_try_def Let_def is_write_def)
    next
      case (Reply aiResponse)
      show ?thesis
      proof (cases "analysisData_of parse (body cs) aiResponse = JNull")
        case n: True
        then show ?thesis
          using assms True Some Reply
          by (auto simp add: AnalyzeWithAI_try_def Let_def is_write_def)
      next
        case n: False
        then show ?thesis
          using assms True Some Reply
          by (simp add: AnalyzeWithAI_try_def Let_def)
      qed
    qed
  qed
qed

lemma AnalyzeWithAI_try_Returned:
  assumes "AnalyzeWithAI_try e k parse llm cid st = Returned r"
  shows "status_then_notify cid r"
proof (cases k)
  case False
  then show ?thesis using assms by (simp add: AnalyzeWithAI_try_def)
next
  case True
  show ?thesis
  proof (cases "get_content st cid")
    case None
    then have "r = (st, [])" using assms True by (simp add: AnalyzeWithAI_try_def)
    then show ?thesis by (simp add: only_writes_status_then_notify)
  next
    case (Some cs)
    show ?thesis
    proof (cases llm)
      case ApiFailure
      then show ?thesis
        using assms True Some by (simp add: AnalyzeWithAI_try_def Let_def)
    next
      case (Reply aiResponse)
      show ?thesis
      proof (cases "analysisData_of parse (body cs) aiResponse = JNull")
        case n: True
        then show ?thesis
          using assms True Some Reply
          by (simp add: AnalyzeWithAI_try_def Let_def)
      next
        case n: False
        then show ?thesis
          using assms True Some Reply
          by (auto simp add: AnalyzeWithAI_try_def Let_def status_then_notify_def
              writes_then_notifications_def is_write_def)
      qed
    qed
  qed
qed

lemma AnalyzeWithAI_ordered:
  "status_then_notify cid (AnalyzeWithAI e k parse llm cid st)"
proof (cases "AnalyzeWithAI_try e k parse llm cid st")
  case (Returned r)
  then show ?thesis
    using AnalyzeWithAI_try_Returned [OF Returned] by (simp add: AnalyzeWithAI_def)
next
  case (Thrown p)
  obtain s t where p: "p = (s, t)" by (cases p)
  have t: "list_all is_write t"
    using Thrown AnalyzeWithAI_try_Thrown unfolding p by blast
  have "AnalyzeWithAI e k parse llm cid st
      = (fst (AnalyzeWithAI_catch e cid s), t @ snd (AnalyzeWithAI_catch e cid s))"
    using Thrown p by (simp add: AnalyzeWithAI_def case_prod_unfold)
  moreover have "list_all is_write (t @ snd (AnalyzeWithAI_catch e cid s))"
    using t AnalyzeWithAI_catch_writes by simp
  ultimately show ?thesis
    by (simp add: only_writes_status_then_notify)
qed

lemma GenerateRecommendations_try_failures:
  "GenerateRecommendations_try (with_failures sf ef e) toStr cid a st
     = GenerateRecommendations_try e toStr cid a st"
  unfolding GenerateRecommendations_try_def clock_with_failures by (rule refl)

lemma GenerateRecommendations_catch_failures:
  "GenerateRecommendations_catch (with_failures sf ef e) cid st
     = GenerateRecommendations_catch e cid st"
  unfolding GenerateRecommendations_catch_def clock_with_failures by (rule refl)

lemma GenerateRecommendations_failures:
  "GenerateRecommendations (with_failures sf ef e) toStr cid a st
     = GenerateRecommendations e toStr cid a st"
  unfolding GenerateRecommendations_def GenerateRecommendations_try_failures
    GenerateRecommendations_catch_failures
  by (rule refl)

lemma GenerateRecommendations_catch_writes:
  "list_all is_write (snd (GenerateRecommendations_catch e cid st))"
  by (simp add: GenerateRecommendations_catch_def Let_def is_write_def split: option.splits)

lemma GenerateRecommendations_try_Thrown:
  assumes "GenerateRecommendations_try e toStr cid a st = Thrown (s, t)"
  shows "t = []"
  using assms
  by (simp add: GenerateRecommendations_try_def Let_def split: option.splits)

lemma GenerateRecommendations_try_Returned:
  assumes "GenerateRecommendations_try e toStr cid a st = Returned r"
  shows "status_then_notify cid r"
proof (cases "get_content st cid")
  case None
  then have "r = (st, [])" using assms by (simp add: GenerateRecommendations_try_def)
  then show ?thesis by (simp add: only_writes_status_then_notify)
next
  case (Some cs)
  show ?thesis
  proof (cases a)
    case None
    then show ?thesis using assms Some by (simp add: GenerateRecommendations_try_def)
  next
    case an: (Some x)
    then show ?thesis
      using assms Some
      by (auto simp add: GenerateRecommendations_try_def Let_def status_then_notify_def
          writes_then_notifications_def is_write_def)
  qed
qed

lemma GenerateRecommendations_ordered:
  "status_then_notify cid (GenerateRecommendations e toStr cid a st)"
proof (cases "GenerateRecommendations_try e toStr cid a st")
  case (Returned r)
  then show ?thesis
    using GenerateRecommendations_try_Returned [OF Returned]
    by (simp add: GenerateRecommendations_def)
next
  case (Thrown p)
  obtain s t where p: "p = (s, t)" by (cases p)
  have t: "t = []"
    using Thrown GenerateRecommendations_try_Thrown unfolding p by blast
  have "GenerateRecommendations e toStr cid a st
      = (fst (GenerateRecommendations_catch e cid s), snd (GenerateRecommendations_catch e cid s))"
    using Thrown p t by (simp add: GenerateRecommendations_def case_prod_unfold)
  moreover have "status_then_notify cid
      (fst (GenerateRecommendations_catch e cid s), snd (GenerateRecommendations_catch e cid s))"
    using GenerateRecommendations_catch_writes by (rule only_writes_status_then_notify)
  ultimately show ?thesis by (simp only:)
qed

lemma stream_fails_with_failures [simp]: "stream_fails (with_failures sf ef e) = sf"
  by (simp add: with_failures_def)

lemma ValidateContent_outcome:
  assumes "get_content st cid = Some cs"
  shows "map_option workflowStatus (get_content (fst (ValidateContent e cid st)) cid)
           = Some (if isValid (make_validationResult e cs) then Validated else Rejected)"
    and "workflow (fst (ValidateContent e cid st)) cid
           = Some (if isValid (make_validationResult e cs) then Validated else Rejected, cid)"
    and "notifications (snd (ValidateContent e cid st))
           = (if isValid (make_validationResult e cs)
              then StreamSend cid ''validation_completed''
                   # (if stream_fails e then [] else [Emit ''content.validated''])
              else [Emit ''content.rejected''])"
proof -
  show "map_option workflowStatus (get_content (fst (ValidateContent e cid st)) cid)
           = Some (if isValid (make_validationResult e cs) then Validated else Rejected)"
  proof (cases "isValid (make_validationResult e cs)")
    case True
    show ?thesis unfolding ValidateContent_valid [OF assms True] using True by (simp add: Let_def)
  next
    case False
    show ?thesis unfolding ValidateContent_invalid [OF assms False] using False by (simp add: Let_def)
  qed
  show "workflow (fst (ValidateContent e cid st)) cid
           = Some (if isValid (make_validationResult e cs) then Validated else Rejected, cid)"
  proof (cases "isValid (make_validationResult e cs)")
    case True
    show ?thesis unfolding ValidateContent_valid [OF assms True] using True by (simp add: Let_def)
  next
    case False
    show ?thesis unfolding ValidateContent_invalid [OF assms False] using False by (simp add: Let_def)
  qed
  show "notifications (snd (ValidateContent e cid st))
           = (if isValid (make_validationResult e cs)
              then StreamSend cid ''validation_completed''
                   # (if stream_fails e then [] else [Emit ''content.validated''])
              else [Emit ''content.rejected''])"
  proof (cases "isValid (make_validationResult e cs)")
    case True
    show ?thesis
      unfolding ValidateContent_valid [OF assms True] using True
      by (simp add: Let_def notifications_def)
  next
    case False
    show ?thesis
      unfolding ValidateContent_invalid [OF assms False] using False
      by (simp add: Let_def notifications_def)
  qed
qed

lemma AnalyzeWithAI_outcome:
  assumes "get_content st cid = Some cs"
    and "analysisData_of parse (body cs) aiResponse \<noteq> JNull"
  shows "workflow (fst (AnalyzeWithAI e True parse (Reply aiResponse) cid st)) cid
           = Some (Analyzed, cid)"
    and "notifications (snd (AnalyzeWithAI e True parse (Reply aiResponse) cid st))
           = [StreamSend cid ''analysis_completed'', Emit ''content.analyzed'']"
  using assms
  by (simp_all add: AnalyzeWithAI_def AnalyzeWithAI_try_def Let_def notifications_def)

lemma GenerateRecommendations_outcome:
  assumes "get_content st cid = Some cs"
  shows "map_option workflowStatus
           (get_content (fst (GenerateRecommendations e toStr cid (Some a) st)) cid)
           = Some Completed"
    and "workflow (fst (GenerateRecommendations e toStr cid (Some a) st)) cid
           = Some (Completed, cid)"
    and "notifications (snd (GenerateRecommendations e toStr cid (Some a) st))
           = [StreamSend cid ''recommendations_completed'', Emit ''content.completed'']"
  using assms
  by (simp_all add: GenerateRecommendations_def GenerateRecommendations_try_def Let_def
      notifications_def)

text \<open>
  C1. In the validation, analysis and recommendation stages every write to the store
  comes before every stream push and event emission, and every notification attempted
  announces the status that was last written to the content record and that the store
  holds. Each stage writes its own status before it notifies: for a stored item,
  validation leaves \<open>validated\<close> or \<open>rejected\<close>, a completed analysis leaves
  \<open>analyzed\<close> and recommendation leaves \<open>completed\<close>, on the content record and in
  the workflow collection, and then attempts its notifications. The store a stage
  leaves does not depend on whether its push or its emission fails, so such a failure
  leaves the stored status as written; in particular, once the analysis stage has
  persisted \<open>analyzed\<close>, the stored status is \<open>analyzed\<close> whether or not the push or
  the emission fails.
\<close>

theorem C1_status_persisted_before_notifications:
  "status_then_notify cid (ValidateContent e cid st)
   \<and> status_then_notify cid (AnalyzeWithAI e k parse llm cid st)
   \<and> status_then_notify cid (GenerateRecommendations e toStr cid a st)
   \<and> fst (ValidateContent (with_failures sf ef e) cid st) = fst (ValidateContent e cid st)
   \<and> fst (AnalyzeWithAI (with_failures sf ef e) k parse llm cid st)
       = fst (AnalyzeWithAI e k parse llm cid st)
   \<and> fst (GenerateRecommendations (with_failures sf ef e) toStr cid a st)
       = fst (GenerateRecommendations e toStr cid a st)
   \<and> (get_content st cid = Some cs \<longrightarrow>
        map_option workflowStatus
          (get_content (fst (ValidateContent (with_failures sf ef e) cid st)) cid)
        = Some (if isValid (make_validationResult e cs) then Validated else Rejected)
      \<and> workflow (fst (ValidateContent (with_failures sf ef e) cid st)) cid
        = Some (if isValid (make_validationResult e cs) then Validated else Rejected, cid)
      \<and> notifications (snd (ValidateContent (with_failures sf ef e) cid st))
        = (if isValid (make_validationResult e cs)
           then StreamSend cid ''validation_completed''
                # (if sf then [] else [Emit ''content.validated''])
           else [Emit ''content.rejected'']))
   \<and> (get_content st cid = Some cs \<and> analysisData_of parse (body cs) aiResponse \<noteq> JNull \<longrightarrow>
        map_option workflowStatus
          (get_content
             (fst (AnalyzeWithAI (with_failures sf ef e) True parse (Reply aiResponse) cid st))
             cid)
        = Some Analyzed
      \<and> workflow
          (fst (AnalyzeWithAI (with_failures sf ef e) True parse (Reply aiResponse) cid st)) cid
        = Some (Analyzed, cid)
      \<and> notifications
          (snd (AnalyzeWithAI (with_failures sf ef e) True parse (Reply aiResponse) cid st))
        = [StreamSend cid ''analysis_completed'', Emit ''content.analyzed''])
   \<and> (get_content st cid = Some cs \<longrightarrow>
        map_option workflowStatus
          (get_content
             (fst (GenerateRecommendations (with_failures sf ef e) toStr cid (Some x) st)) cid)
        = Some Completed
      \<and> workflow (fst (GenerateRecommendations (with_failures sf ef e) toStr cid (Some x) st)) cid
        = Some (Completed, cid)
      \<and> notifications
          (snd (GenerateRecommendations (with_failures sf ef e) toStr cid (Some x) st))
        = [StreamSend cid ''recommendations_completed'', Emit ''content.completed''])"
proof (intro conjI impI)
  show "status_then_notify cid (ValidateContent e cid st)"
    by (rule ValidateContent_ordered)
  show "status_then_notify cid (AnalyzeWithAI e k parse llm cid st)"
    by (rule AnalyzeWithAI_ordered)
  show "status_then_notify cid (GenerateRecommendations e toStr cid a st)"
    by (rule GenerateRecommendations_ordered)
  show "fst (ValidateContent (with_failures sf ef e) cid st) = fst (ValidateContent e cid st)"
    by (rule ValidateContent_failures)
  show "fst (AnalyzeWithAI (with_failures sf ef e) k parse llm cid st)
       = fst (AnalyzeWithAI e k parse llm cid st)"
    by (simp only: AnalyzeWithAI_failures)
  show "fst (GenerateRecommendations (with_failures sf ef e) toStr cid a st)
       = fst (GenerateRecommendations e toStr cid a st)"
    by (simp only: GenerateRecommendations_failures)
next
  assume g: "get_content st cid = Some cs"
  show "map_option workflowStatus
          (get_content (fst (ValidateContent (with_failures sf ef e) cid st)) cid)
        = Some (if isValid (make_validationResult e cs) then Validated else Rejected)"
    using ValidateContent_outcome(1) [OF g, of "with_failures sf ef e"] by simp
next
  assume g: "get_content st cid = Some cs"
  show "workflow (fst (ValidateContent (with_failures sf ef e) cid st)) cid
        = Some (if isValid (make_validationResult e cs) then Validated else Rejected, cid)"
    using ValidateContent_outcome(2) [OF g, of "with_failures sf ef e"] by simp
next
  assume g: "get_content st cid = Some cs"
  show "notifications (snd (ValidateContent (with_failures sf ef e) cid st))
        = (if isValid (make_validationResult e cs)
           then StreamSend cid ''validation_completed''
                # (if sf then [] else [Emit ''content.validated''])
           else [Emit ''content.rejected''])"
    using ValidateContent_outcome(3) [OF g, of "with_failures sf ef e"] by simp
next
  assume "get_content st cid = Some cs \<and> analysisData_of parse (body cs) aiResponse \<noteq> JNull"
  then have g: "get_content st cid = Some cs"
    and n: "analysisData_of parse (body cs) aiResponse \<noteq> JNull"
    by simp_all
  show "map_option workflowStatus
          (get_content
             (fst (AnalyzeWithAI (with_failures sf ef e) True parse (Reply aiResponse) cid st))
             cid)
        = Some Analyzed"
    by (rule AnalyzeWithAI_success(3) [OF g n])
  show "workflow
          (fst (AnalyzeWithAI (with_failures sf ef e) True parse (Reply aiResponse) cid st)) cid
        = Some (Analyzed, cid)"
    by (rule AnalyzeWithAI_outcome(1) [OF g n])
  show "notifications
          (snd (AnalyzeWithAI (with_failures sf ef e) True parse (Reply aiResponse) cid st))
        = [StreamSend cid ''analysis_completed'', Emit ''content.analyzed'']"
    by (rule AnalyzeWithAI_outcome(2) [OF g n])
next
  assume g: "get_content st cid = Some cs"
  show "map_option workflowStatus
          (get_content
             (fst (GenerateRecommendations (with_failures sf ef e) toStr cid (Some x) st)) cid)
        = Some Completed"
    by (rule GenerateRecommendations_outcome(1) [OF g])
  show "workflow (fst (GenerateRecommendations (with_failures sf ef e) toStr cid (Some x) st)) cid
        = Some (Completed, cid)"
    by (rule GenerateRecommendations_outcome(2) [OF g])
  show "notifications
          (snd (GenerateRecommendations (with_failures sf ef e) toStr cid (Some x) st))
        = [StreamSend cid ''recommendations_completed'', Emit ''content.completed'']"
    by (rule GenerateRecommendations_outcome(3) [OF g])
qed

theorem C1_status_persisted_before_notifications_witness:
  "get_content (example_store [example_item ''c1'' (replicate 150 CHR ''x'') ''en'' Pending]) ''c1''
     = Some (example_item ''c1'' (replicate 150 CHR ''x'') ''en'' Pending)
   \<and> analysisData_of example_parse
        (body (example_item ''c1'' (replicate 150 CHR ''x'') ''en'' Pending)) ''no json''
       \<noteq> JNull
   \<and> isValid (make_validationResult example_env
                 (example_item ''c1'' (replicate 150 CHR ''x'') ''en'' Pending))
   \<and> map_option workflowStatus
        (get_content
           (fst (ValidateContent (with_failures True True example_env) ''c1''
                   (example_store [example_item ''c1'' (replicate 150 CHR ''x'') ''en'' Pending])))
           ''c1'')
       = Some Validated
   \<and> notifications
        (snd (ValidateContent (with_failures True True example_env) ''c1''
                (example_store [example_item ''c1'' (replicate 150 CHR ''x'') ''en'' Pending])))
       = [StreamSend ''c1'' ''validation_completed'']
   \<and> map_option workflowStatus
        (get_content
           (fst (AnalyzeWithAI (with_failures True True example_env) True example_parse
                   (Reply ''no json'') ''c1''
                   (example_store [example_item ''c1'' (replicate 150 CHR ''x'') ''en'' Pending])))
           ''c1'')
       = Some Analyzed
   \<and> notifications
        (snd (AnalyzeWithAI (with_failures True True example_env) True example_parse
                (Reply ''no json'') ''c1''
                (example_store [example_item ''c1'' (replicate 150 CHR ''x'') ''en'' Pending])))
       = [StreamSend ''c1'' ''analysis_completed'', Emit ''content.analyzed'']
   \<and> map_option workflowStatus
        (get_content
           (fst (GenerateRecommendations (with_failures True True example_env) example_toStr ''c1''
                   (Some (example_analysis (Fin 70) (JStr ''positive'') (Fin 70) []))
                   (example_store [example_item ''c1'' (replicate 150 CHR ''x'') ''en'' Pending])))
           ''c1'')
       = Some Completed
   \<and> status_then_notify ''c1''
        (GenerateRecommendations example_env example_toStr ''c1''
           (Some (example_analysis (Fin 70) (JStr ''positive'') (Fin 70) []))
           (example_store [example_item ''c1'' (replicate 150 CHR ''x'') ''en'' Pending]))"
proof -
  have h1: "get_content (example_store [example_item ''c1'' (replicate 150 CHR ''x'') ''en'' Pending]) ''c1''
     = Some (example_item ''c1'' (replicate 150 CHR ''x'') ''en'' Pending)"
    by (simp add: get_content_def example_store_def example_item_def)
  have h2: "analysisData_of example_parse
        (body (example_item ''c1'' (replicate 150 CHR ''x'') ''en'' Pending)) ''no json''
       \<noteq> JNull"
    by (simp add: analysisData_of_def example_parse_def clean_response_def trim_def
        isWhiteSpace_def startsWith_def fallback_analysis_def)
  have h3: "isValid (make_validationResult example_env
                 (example_item ''c1'' (replicate 150 CHR ''x'') ''en'' Pending))"
    by (simp add: make_validationResult_def validation_errors_def MIN_BODY_LENGTH_def
        language_supported_def SUPPORTED_LANGUAGES_def toLowerCase_def toLowerCase_char_def
        example_item_def)
  note inst = C1_status_persisted_before_notifications
      [where cid = "''c1''" and e = example_env and k = True and parse = example_parse
         and llm = "Reply ''no json''" and aiResponse = "''no json''"
         and toStr = example_toStr
         and a = "Some (example_analysis (Fin 70) (JStr ''positive'') (Fin 70) [])"
         and x = "example_analysis (Fin 70) (JStr ''positive'') (Fin 70) []"
         and st = "example_store [example_item ''c1'' (replicate 150 CHR ''x'') ''en'' Pending]"
         and cs = "example_item ''c1'' (replicate 150 CHR ''x'') ''en'' Pending"
         and sf = True and ef = True]
  note ordered = inst [THEN conjunct2, THEN conjunct2, THEN conjunct1]
  note outcomes = inst [THEN conjunct2, THEN conjunct2, THEN conjunct2, THEN conjunct2,
      THEN conjunct2, THEN conjunct2]
  show ?thesis
    using ordered outcomes h1 h2 h3
    by (simp only: h1 h2 h3 if_True simp_thms)
qed

end
